theory Spec2Isabelle
  imports Complex_Main
begin

section \<open>Python values\<close>

text \<open>
  The client is dynamically typed: what \<^verbatim>\<open>json.loads\<close> returns, what a handler
  receives and what an error object stores are Python values. The embedding uses the
  JSON-shaped values below. A \<^verbatim>\<open>dict\<close> is an association list in insertion order
  whose first entry for a key is the one a lookup sees. Numbers are the integers
  (Python's unbounded \<^verbatim>\<open>int\<close>); a JSON number with a fraction or an exponent is
  outside the embedding. Characters are code points below 256.
\<close>

datatype json =
    JNull
  | JBool bool
  | JInt int
  | JStr string
  | JList "json list"
  | JObj "(string \<times> json) list"

text \<open>Truth value testing (\<^verbatim>\<open>if x\<close>, \<^verbatim>\<open>x or y\<close>).\<close>

fun truthy :: "json \<Rightarrow> bool" where
  "truthy JNull = False"
| "truthy (JBool b) = b"
| "truthy (JInt n) = (n \<noteq> 0)"
| "truthy (JStr s) = (s \<noteq> [])"
| "truthy (JList xs) = (xs \<noteq> [])"
| "truthy (JObj kvs) = (kvs \<noteq> [])"

definition py_or :: "json \<Rightarrow> json \<Rightarrow> json" where
  "py_or a b = (if truthy a then a else b)"

text \<open>\<^verbatim>\<open>isinstance(x, int)\<close>: \<^verbatim>\<open>bool\<close> is a subclass of \<^verbatim>\<open>int\<close>.\<close>

fun isinstance_int :: "json \<Rightarrow> bool" where
  "isinstance_int (JInt n) = True"
| "isinstance_int (JBool b) = True"
| "isinstance_int v = False"

fun isinstance_str :: "json \<Rightarrow> bool" where
  "isinstance_str (JStr s) = True"
| "isinstance_str v = False"

fun isinstance_dict :: "json \<Rightarrow> bool" where
  "isinstance_dict (JObj kvs) = True"
| "isinstance_dict v = False"

text \<open>\<^verbatim>\<open>x == k\<close> for an integer constant \<^verbatim>\<open>k\<close>: \<^verbatim>\<open>True == 1\<close> and \<^verbatim>\<open>False == 0\<close>.\<close>

fun eq_int :: "json \<Rightarrow> int \<Rightarrow> bool" where
  "eq_int (JInt n) k = (n = k)"
| "eq_int (JBool b) k = ((if b then 1 else 0) = k)"
| "eq_int v k = False"

text \<open>Exceptions the modelled code can raise or meet. The typed protocol error is a
  record of Python attributes, each holding whatever value the constructor was given.\<close>

datatype error_class =
    BAPError
  | BAPParseError
  | BAPMethodNotFoundError
  | BAPNotInitializedError
  | BAPAlreadyInitializedError
  | BAPBrowserNotLaunchedError
  | BAPPageNotFoundError
  | BAPElementNotFoundError
  | BAPElementNotVisibleError
  | BAPElementNotEnabledError
  | BAPSelectorAmbiguousError
  | BAPNavigationError
  | BAPTimeoutError
  | BAPActionError
  | BAPTargetClosedError
  | BAPExecutionContextDestroyedError
  | BAPContextNotFoundError
  | BAPResourceLimitExceededError
  | BAPApprovalDeniedError
  | BAPApprovalTimeoutError
  | BAPApprovalRequiredError
  | BAPFrameNotFoundError
  | BAPDomainNotAllowedError
  | BAPStreamNotFoundError
  | BAPStreamCancelledError

record bap_error =
  cls :: error_class
  code :: json
  message :: json
  retryable :: json
  retry_after_ms :: json
  details :: json

datatype pyexc =
    AttributeError
  | TypeError
  | ValueError
  | IndexError
  | KeyError
  | ValidationError
  | NotConnected
  | ConnectFailed
  | WebSocketError
  | ReconnectFailed
  | CancelledError
  | BAP bap_error

text \<open>\<^verbatim>\<open>except Exception\<close> does not catch \<^verbatim>\<open>asyncio.CancelledError\<close>, a
  \<^verbatim>\<open>BaseException\<close>.\<close>

fun is_Exception :: "pyexc \<Rightarrow> bool" where
  "is_Exception CancelledError = False"
| "is_Exception e = True"

text \<open>Sequencing of computations that may raise.\<close>

definition bindE :: "pyexc + 'a \<Rightarrow> ('a \<Rightarrow> pyexc + 'b) \<Rightarrow> pyexc + 'b" where
  "bindE m f = (case m of Inl e \<Rightarrow> Inl e | Inr v \<Rightarrow> f v)"

text \<open>\<^verbatim>\<open>d.get(k, default)\<close> on a dict, and on an arbitrary value: only a dict has
  the method.\<close>

definition dict_get :: "(string \<times> json) list \<Rightarrow> string \<Rightarrow> json \<Rightarrow> json" where
  "dict_get kvs k d = (case map_of kvs k of None \<Rightarrow> d | Some v \<Rightarrow> v)"

fun py_get :: "json \<Rightarrow> string \<Rightarrow> json \<Rightarrow> pyexc + json" where
  "py_get (JObj kvs) k d = Inr (dict_get kvs k d)"
| "py_get v k d = Inl AttributeError"

text \<open>\<^verbatim>\<open>details.get(k, d) if details else d\<close>.\<close>

definition opt_get :: "json \<Rightarrow> string \<Rightarrow> json \<Rightarrow> pyexc + json" where
  "opt_get dets k d = (if truthy dets then py_get dets k d else Inr d)"

subsection \<open>\<^verbatim>\<open>str()\<close> as used by f-strings\<close>

function nat_dec :: "nat \<Rightarrow> string" where
  "nat_dec n = (if n < 10 then [char_of (48 + n)] else nat_dec (n div 10) @ [char_of (48 + n mod 10)])"
  by pat_completeness auto
termination
  by (relation "measure (\<lambda>n. n)") auto

declare nat_dec.simps [simp del]

definition int_dec :: "int \<Rightarrow> string" where
  "int_dec i = (if i < 0 then CHR ''-'' # nat_dec (nat (- i)) else nat_dec (nat i))"

definition hex_digit :: "nat \<Rightarrow> char" where
  "hex_digit n = (if n < 10 then char_of (48 + n) else char_of (87 + n))"

definition py_printable :: "char \<Rightarrow> bool" where
  "py_printable c = (let n = (of_char c :: nat) in (32 \<le> n \<and> n < 127) \<or> (161 \<le> n \<and> n \<noteq> 173))"

definition repr_char :: "char \<Rightarrow> char \<Rightarrow> string" where
  "repr_char q c =
     (if c = q \<or> c = CHR 0x5C then [CHR 0x5C, c]
      else if c = CHR 0x09 then [CHR 0x5C, CHR ''t'']
      else if c = CHR 0x0A then [CHR 0x5C, CHR ''n'']
      else if c = CHR 0x0D then [CHR 0x5C, CHR ''r'']
      else if py_printable c then [c]
      else [CHR 0x5C, CHR ''x'', hex_digit ((of_char c :: nat) div 16), hex_digit ((of_char c :: nat) mod 16)])"

definition repr_str :: "string \<Rightarrow> string" where
  "repr_str s =
     (let q = (if CHR 0x27 \<in> set s \<and> CHR 0x22 \<notin> set s then CHR 0x22 else CHR 0x27)
      in q # concat (map (repr_char q) s) @ [q])"

fun join :: "string \<Rightarrow> string list \<Rightarrow> string" where
  "join sep [] = []"
| "join sep [x] = x"
| "join sep (x # y # ys) = x @ sep @ join sep (y # ys)"

fun py_repr :: "json \<Rightarrow> string" where
  "py_repr JNull = ''None''"
| "py_repr (JBool b) = (if b then ''True'' else ''False'')"
| "py_repr (JInt n) = int_dec n"
| "py_repr (JStr s) = repr_str s"
| "py_repr (JList xs) = ''['' @ join '', '' (map py_repr xs) @ '']''"
| "py_repr (JObj kvs) =
     ''{'' @ join '', '' (map (\<lambda>kv. repr_str (fst kv) @ '': '' @ py_repr (snd kv)) kvs) @ ''}''"

fun py_str :: "json \<Rightarrow> string" where
  "py_str (JStr s) = s"
| "py_str v = py_repr v"

section \<open>Error codes and the typed errors (\<^verbatim>\<open>types/protocol.py\<close>, \<^verbatim>\<open>errors.py\<close>)\<close>

definition ParseError :: int where "ParseError = - 32700"
definition InvalidRequest :: int where "InvalidRequest = - 32600"
definition MethodNotFound :: int where "MethodNotFound = - 32601"
definition InvalidParams :: int where "InvalidParams = - 32602"
definition InternalError :: int where "InternalError = - 32603"
definition ServerError :: int where "ServerError = - 32000"
definition NotInitialized :: int where "NotInitialized = - 32001"
definition AlreadyInitialized :: int where "AlreadyInitialized = - 32002"
definition BrowserNotLaunched :: int where "BrowserNotLaunched = - 32010"
definition PageNotFound :: int where "PageNotFound = - 32011"
definition ElementNotFound :: int where "ElementNotFound = - 32012"
definition ElementNotVisible :: int where "ElementNotVisible = - 32013"
definition ElementNotEnabled :: int where "ElementNotEnabled = - 32014"
definition NavigationFailed :: int where "NavigationFailed = - 32015"
definition Timeout :: int where "Timeout = - 32016"
definition TargetClosed :: int where "TargetClosed = - 32017"
definition ExecutionContextDestroyed :: int where "ExecutionContextDestroyed = - 32018"
definition SelectorAmbiguous :: int where "SelectorAmbiguous = - 32020"
definition ActionFailed :: int where "ActionFailed = - 32021"
definition InterceptedRequest :: int where "InterceptedRequest = - 32022"
definition ContextNotFound :: int where "ContextNotFound = - 32023"
definition ResourceLimitExceeded :: int where "ResourceLimitExceeded = - 32024"
definition ApprovalDenied :: int where "ApprovalDenied = - 32030"
definition ApprovalTimeout :: int where "ApprovalTimeout = - 32031"
definition ApprovalRequired :: int where "ApprovalRequired = - 32032"
definition FrameNotFound :: int where "FrameNotFound = - 32040"
definition DomainNotAllowed :: int where "DomainNotAllowed = - 32041"
definition StreamNotFound :: int where "StreamNotFound = - 32050"
definition StreamCancelled :: int where "StreamCancelled = - 32051"

lemmas ErrorCodes_defs =
  ParseError_def InvalidRequest_def MethodNotFound_def InvalidParams_def InternalError_def
  ServerError_def NotInitialized_def AlreadyInitialized_def BrowserNotLaunched_def
  PageNotFound_def ElementNotFound_def ElementNotVisible_def ElementNotEnabled_def
  NavigationFailed_def Timeout_def TargetClosed_def ExecutionContextDestroyed_def
  SelectorAmbiguous_def ActionFailed_def InterceptedRequest_def ContextNotFound_def
  ResourceLimitExceeded_def ApprovalDenied_def ApprovalTimeout_def ApprovalRequired_def
  FrameNotFound_def DomainNotAllowed_def StreamNotFound_def StreamCancelled_def

text \<open>\<^verbatim>\<open>BAPError.__init__(code, message, *, retryable=False, retry_after_ms=None,
  details=None)\<close>; a subclass passes its own arguments to it, and the object keeps the
  subclass.\<close>

definition init_error ::
  "error_class \<Rightarrow> json \<Rightarrow> json \<Rightarrow> json \<Rightarrow> json \<Rightarrow> json \<Rightarrow> bap_error" where
  "init_error k c m r ra d =
     \<lparr>cls = k, code = c, message = m, retryable = r, retry_after_ms = ra, details = d\<rparr>"

definition new_BAPParseError :: "json \<Rightarrow> bap_error" where
  "new_BAPParseError m = init_error BAPParseError (JInt ParseError) m (JBool False) JNull JNull"

definition new_BAPMethodNotFoundError :: "json \<Rightarrow> bap_error" where
  "new_BAPMethodNotFoundError method =
     init_error BAPMethodNotFoundError (JInt MethodNotFound)
       (JStr (''Method not found: '' @ py_str method)) (JBool False) JNull JNull"

definition new_BAPNotInitializedError :: bap_error where
  "new_BAPNotInitializedError =
     init_error BAPNotInitializedError (JInt NotInitialized)
       (JStr ''Client not initialized. Call connect() first.'') (JBool False) JNull JNull"

definition new_BAPAlreadyInitializedError :: bap_error where
  "new_BAPAlreadyInitializedError =
     init_error BAPAlreadyInitializedError (JInt AlreadyInitialized)
       (JStr ''Client already initialized'') (JBool False) JNull JNull"

definition new_BAPBrowserNotLaunchedError :: bap_error where
  "new_BAPBrowserNotLaunchedError =
     init_error BAPBrowserNotLaunchedError (JInt BrowserNotLaunched)
       (JStr ''Browser not launched. Call launch() first.'') (JBool False) JNull JNull"

definition new_BAPPageNotFoundError :: "json \<Rightarrow> bap_error" where
  "new_BAPPageNotFoundError page_id =
     init_error BAPPageNotFoundError (JInt PageNotFound)
       (JStr (''Page not found: '' @ py_str page_id)) (JBool False) JNull
       (JObj [(''pageId'', page_id)])"

definition new_BAPElementNotFoundError :: "json \<Rightarrow> json \<Rightarrow> json \<Rightarrow> bap_error" where
  "new_BAPElementNotFoundError selector r ra =
     init_error BAPElementNotFoundError (JInt ElementNotFound) (JStr ''Element not found'')
       r ra (JObj [(''selector'', selector)])"

definition new_BAPElementNotVisibleError :: "json \<Rightarrow> bap_error" where
  "new_BAPElementNotVisibleError selector =
     init_error BAPElementNotVisibleError (JInt ElementNotVisible) (JStr ''Element not visible'')
       (JBool True) (JInt 500) (JObj [(''selector'', selector)])"

definition new_BAPElementNotEnabledError :: "json \<Rightarrow> bap_error" where
  "new_BAPElementNotEnabledError selector =
     init_error BAPElementNotEnabledError (JInt ElementNotEnabled) (JStr ''Element not enabled'')
       (JBool True) (JInt 500) (JObj [(''selector'', selector)])"

definition new_BAPSelectorAmbiguousError :: "json \<Rightarrow> json \<Rightarrow> bap_error" where
  "new_BAPSelectorAmbiguousError selector count =
     init_error BAPSelectorAmbiguousError (JInt SelectorAmbiguous)
       (JStr (''Selector matched '' @ py_str count @ '' elements, expected 1''))
       (JBool False) JNull (JObj [(''selector'', selector), (''count'', count)])"

definition new_BAPNavigationError :: "json \<Rightarrow> json \<Rightarrow> json \<Rightarrow> json \<Rightarrow> bap_error" where
  "new_BAPNavigationError m url status r =
     (let d = (if truthy url then [(''url'', url)] else [])
              @ (if truthy status then [(''status'', status)] else [])
      in init_error BAPNavigationError (JInt NavigationFailed) m r (JInt 1000)
           (py_or (JObj d) JNull))"

definition new_BAPTimeoutError :: "json \<Rightarrow> json \<Rightarrow> bap_error" where
  "new_BAPTimeoutError m timeout =
     init_error BAPTimeoutError (JInt Timeout) m (JBool True) (JInt 0)
       (if truthy timeout then JObj [(''timeout'', timeout)] else JNull)"

definition new_BAPActionError :: "json \<Rightarrow> json \<Rightarrow> json \<Rightarrow> json \<Rightarrow> bap_error" where
  "new_BAPActionError action m selector r =
     (let d = [(''action'', action)] @ (if truthy selector then [(''selector'', selector)] else [])
      in init_error BAPActionError (JInt ActionFailed)
           (JStr (py_str action @ '' failed: '' @ py_str m)) r JNull (JObj d))"

definition new_BAPTargetClosedError :: "json \<Rightarrow> bap_error" where
  "new_BAPTargetClosedError target =
     init_error BAPTargetClosedError (JInt TargetClosed)
       (JStr (py_str target @ '' was closed'')) (JBool False) JNull JNull"

definition new_BAPExecutionContextDestroyedError :: bap_error where
  "new_BAPExecutionContextDestroyedError =
     init_error BAPExecutionContextDestroyedError (JInt ExecutionContextDestroyed)
       (JStr ''Execution context was destroyed'') (JBool True) (JInt 100) JNull"

definition new_BAPContextNotFoundError :: "json \<Rightarrow> bap_error" where
  "new_BAPContextNotFoundError context_id =
     init_error BAPContextNotFoundError (JInt ContextNotFound)
       (JStr (''Context not found: '' @ py_str context_id)) (JBool False) JNull
       (JObj [(''contextId'', context_id)])"

definition new_BAPResourceLimitExceededError :: "json \<Rightarrow> json \<Rightarrow> json \<Rightarrow> bap_error" where
  "new_BAPResourceLimitExceededError resource limit current =
     init_error BAPResourceLimitExceededError (JInt ResourceLimitExceeded)
       (JStr (''Resource limit exceeded: '' @ py_str resource @ '' (max: '' @ py_str limit
              @ '', current: '' @ py_str current @ '')''))
       (JBool False) JNull
       (JObj [(''resource'', resource), (''limit'', limit), (''current'', current)])"

definition new_BAPApprovalDeniedError :: "json \<Rightarrow> json \<Rightarrow> bap_error" where
  "new_BAPApprovalDeniedError reason rule =
     init_error BAPApprovalDeniedError (JInt ApprovalDenied)
       (if truthy reason then JStr (''Approval denied: '' @ py_str reason)
        else JStr ''Approval denied'')
       (JBool False) JNull
       (if truthy (py_or rule reason) then JObj [(''rule'', rule), (''reason'', reason)]
        else JNull)"

definition new_BAPApprovalTimeoutError :: "json \<Rightarrow> bap_error" where
  "new_BAPApprovalTimeoutError timeout =
     init_error BAPApprovalTimeoutError (JInt ApprovalTimeout)
       (JStr (''Approval timed out after '' @ py_str timeout @ ''ms'')) (JBool True) JNull
       (JObj [(''timeout'', timeout)])"

definition new_BAPApprovalRequiredError :: "json \<Rightarrow> json \<Rightarrow> bap_error" where
  "new_BAPApprovalRequiredError request_id rule =
     init_error BAPApprovalRequiredError (JInt ApprovalRequired)
       (JStr (''Approval required for action (rule: '' @ py_str rule @ '')'')) (JBool False) JNull
       (JObj [(''requestId'', request_id), (''rule'', rule)])"

definition new_BAPFrameNotFoundError :: "json \<Rightarrow> bap_error" where
  "new_BAPFrameNotFoundError identifier =
     init_error BAPFrameNotFoundError (JInt FrameNotFound)
       (if truthy identifier then JStr (''Frame not found: '' @ py_str identifier)
        else JStr ''Frame not found'')
       (JBool False) JNull
       (if truthy identifier then JObj [(''identifier'', identifier)] else JNull)"

definition new_BAPDomainNotAllowedError :: "json \<Rightarrow> bap_error" where
  "new_BAPDomainNotAllowedError domain =
     init_error BAPDomainNotAllowedError (JInt DomainNotAllowed)
       (JStr (''Domain not allowed: '' @ py_str domain)) (JBool False) JNull
       (JObj [(''domain'', domain)])"

definition new_BAPStreamNotFoundError :: "json \<Rightarrow> bap_error" where
  "new_BAPStreamNotFoundError stream_id =
     init_error BAPStreamNotFoundError (JInt StreamNotFound)
       (JStr (''Stream not found: '' @ py_str stream_id)) (JBool False) JNull
       (JObj [(''streamId'', stream_id)])"

definition new_BAPStreamCancelledError :: "json \<Rightarrow> bap_error" where
  "new_BAPStreamCancelledError stream_id =
     init_error BAPStreamCancelledError (JInt StreamCancelled)
       (JStr (''Stream was cancelled: '' @ py_str stream_id)) (JBool False) JNull
       (JObj [(''streamId'', stream_id)])"

subsection \<open>\<^verbatim>\<open>create_error_from_code\<close>\<close>

text \<open>Membership of a value in a dict keyed by integers: a list or a dict is unhashable.\<close>

fun in_int_keys :: "json \<Rightarrow> int list \<Rightarrow> pyexc + bool" where
  "in_int_keys (JInt n) ks = Inr (n \<in> set ks)"
| "in_int_keys (JBool b) ks = Inr ((if b then 1 else 0) \<in> set ks)"
| "in_int_keys (JList xs) ks = Inl TypeError"
| "in_int_keys (JObj kvs) ks = Inl TypeError"
| "in_int_keys v ks = Inr False"

definition error_classes :: "int list" where
  "error_classes =
     [ParseError, InvalidRequest, MethodNotFound, InvalidParams, NotInitialized,
      AlreadyInitialized, BrowserNotLaunched, Timeout, TargetClosed,
      ExecutionContextDestroyed, ApprovalDenied, FrameNotFound, StreamNotFound,
      StreamCancelled]"

text \<open>The chain under \<^verbatim>\<open>if code in error_classes:\<close>. \<^verbatim>\<open>None\<close> is falling out of
  the chain (the table lists \<^verbatim>\<open>InvalidRequest\<close> and \<^verbatim>\<open>InvalidParams\<close>, the chain
  has no branch for them).\<close>

definition special_constructors :: "json \<Rightarrow> json \<Rightarrow> json \<Rightarrow> (pyexc + bap_error) option" where
  "special_constructors c m d =
     (if eq_int c ParseError then Some (Inr (new_BAPParseError m))
      else if eq_int c MethodNotFound then Some (Inr (new_BAPMethodNotFoundError m))
      else if eq_int c NotInitialized then Some (Inr new_BAPNotInitializedError)
      else if eq_int c AlreadyInitialized then Some (Inr new_BAPAlreadyInitializedError)
      else if eq_int c BrowserNotLaunched then Some (Inr new_BAPBrowserNotLaunchedError)
      else if eq_int c Timeout then
        Some (bindE (opt_get d ''timeout'' JNull) (\<lambda>t. Inr (new_BAPTimeoutError m t)))
      else if eq_int c TargetClosed then
        Some (bindE (opt_get d ''target'' (JStr ''target'')) (\<lambda>t. Inr (new_BAPTargetClosedError t)))
      else if eq_int c ExecutionContextDestroyed then
        Some (Inr new_BAPExecutionContextDestroyedError)
      else if eq_int c ApprovalDenied then
        Some (bindE (opt_get d ''reason'' JNull) (\<lambda>reason.
              bindE (opt_get d ''rule'' JNull) (\<lambda>rule.
              Inr (new_BAPApprovalDeniedError reason rule))))
      else if eq_int c FrameNotFound then
        Some (bindE (opt_get d ''identifier'' JNull) (\<lambda>i. Inr (new_BAPFrameNotFoundError i)))
      else if eq_int c StreamNotFound then
        Some (bindE (opt_get d ''streamId'' (JStr ''unknown''))
               (\<lambda>i. Inr (new_BAPStreamNotFoundError i)))
      else if eq_int c StreamCancelled then
        Some (bindE (opt_get d ''streamId'' (JStr ''unknown''))
               (\<lambda>i. Inr (new_BAPStreamCancelledError i)))
      else None)"

text \<open>The chain under \<^verbatim>\<open># Handle other specific cases\<close>.\<close>

definition other_constructors ::
  "json \<Rightarrow> json \<Rightarrow> json \<Rightarrow> json \<Rightarrow> json \<Rightarrow> (pyexc + bap_error) option" where
  "other_constructors c m r ra d =
     (if eq_int c PageNotFound then
        Some (bindE (opt_get d ''pageId'' (JStr ''unknown''))
               (\<lambda>p. Inr (new_BAPPageNotFoundError p)))
      else if eq_int c ElementNotFound then
        Some (bindE (opt_get d ''selector'' JNull)
               (\<lambda>sel. Inr (new_BAPElementNotFoundError sel r (py_or ra (JInt 500)))))
      else if eq_int c ElementNotVisible then
        Some (bindE (opt_get d ''selector'' JNull)
               (\<lambda>sel. Inr (new_BAPElementNotVisibleError sel)))
      else if eq_int c ElementNotEnabled then
        Some (bindE (opt_get d ''selector'' JNull)
               (\<lambda>sel. Inr (new_BAPElementNotEnabledError sel)))
      else if eq_int c SelectorAmbiguous then
        Some (bindE (opt_get d ''selector'' JNull) (\<lambda>sel.
              bindE (opt_get d ''count'' (JInt 0)) (\<lambda>n.
              Inr (new_BAPSelectorAmbiguousError sel n))))
      else if eq_int c NavigationFailed then
        Some (bindE (opt_get d ''url'' JNull) (\<lambda>url.
              bindE (opt_get d ''status'' JNull) (\<lambda>status.
              Inr (new_BAPNavigationError m url status r))))
      else if eq_int c ActionFailed then
        Some (bindE (opt_get d ''action'' (JStr ''action'')) (\<lambda>action.
              bindE (opt_get d ''selector'' JNull) (\<lambda>sel.
              Inr (new_BAPActionError action m sel r))))
      else if eq_int c ContextNotFound then
        Some (bindE (opt_get d ''contextId'' (JStr ''unknown''))
               (\<lambda>i. Inr (new_BAPContextNotFoundError i)))
      else if eq_int c ResourceLimitExceeded then
        Some (bindE (opt_get d ''resource'' (JStr ''resource'')) (\<lambda>resource.
              bindE (opt_get d ''limit'' (JInt 0)) (\<lambda>limit.
              bindE (opt_get d ''current'' (JInt 0)) (\<lambda>current.
              Inr (new_BAPResourceLimitExceededError resource limit current)))))
      else if eq_int c ApprovalTimeout then
        Some (bindE (opt_get d ''timeout'' (JInt 60000))
               (\<lambda>t. Inr (new_BAPApprovalTimeoutError t)))
      else if eq_int c ApprovalRequired then
        Some (bindE (opt_get d ''requestId'' (JStr ''unknown'')) (\<lambda>request_id.
              bindE (opt_get d ''rule'' (JStr ''unknown'')) (\<lambda>rule.
              Inr (new_BAPApprovalRequiredError request_id rule))))
      else if eq_int c DomainNotAllowed then
        Some (bindE (opt_get d ''domain'' (JStr ''unknown''))
               (\<lambda>dom. Inr (new_BAPDomainNotAllowedError dom)))
      else None)"

definition create_error_from_code ::
  "json \<Rightarrow> json \<Rightarrow> json \<Rightarrow> json \<Rightarrow> json \<Rightarrow> pyexc + bap_error" where
  "create_error_from_code c m r ra d =
     bindE (in_int_keys c error_classes) (\<lambda>listed.
       case (if listed then special_constructors c m d else None) of
         Some res \<Rightarrow> res
       | None \<Rightarrow>
           (case other_constructors c m r ra d of
              Some res \<Rightarrow> res
            | None \<Rightarrow> Inr (init_error BAPError c m r ra d)))"

subsection \<open>\<^verbatim>\<open>BAPError.from_dict\<close> and \<^verbatim>\<open>BAPError.to_dict\<close>\<close>

definition from_dict :: "json \<Rightarrow> pyexc + bap_error" where
  "from_dict error_dict =
     bindE (py_get error_dict ''code'' (JInt InternalError)) (\<lambda>c.
     bindE (py_get error_dict ''message'' (JStr ''Unknown error'')) (\<lambda>m.
     bindE (py_get error_dict ''data'' (JObj [])) (\<lambda>data.
     bindE (py_get data ''retryable'' (JBool False)) (\<lambda>r.
     bindE (py_get data ''retryAfterMs'' JNull) (\<lambda>ra.
     bindE (py_get data ''details'' JNull) (\<lambda>d.
       create_error_from_code c m r ra d))))))"

definition to_dict :: "bap_error \<Rightarrow> json" where
  "to_dict e =
     JObj [(''code'', code e), (''message'', message e),
           (''data'', JObj ([(''retryable'', retryable e)]
              @ (if retry_after_ms e \<noteq> JNull then [(''retryAfterMs'', retry_after_ms e)] else [])
              @ (if details e \<noteq> JNull then [(''details'', details e)] else [])))]"

definition constructor_codes :: "int list" where
  "constructor_codes =
     [ParseError, MethodNotFound, NotInitialized, AlreadyInitialized, BrowserNotLaunched,
      Timeout, TargetClosed, ExecutionContextDestroyed, ApprovalDenied, FrameNotFound,
      StreamNotFound, StreamCancelled, PageNotFound, ElementNotFound, ElementNotVisible,
      ElementNotEnabled, SelectorAmbiguous, NavigationFailed, ActionFailed, ContextNotFound,
      ResourceLimitExceeded, ApprovalTimeout, ApprovalRequired, DomainNotAllowed]"

text \<open>An error whose attributes have the types the constructor's signature declares:
  \<^verbatim>\<open>code: int\<close>, \<^verbatim>\<open>message: str\<close>, \<^verbatim>\<open>retryable: bool\<close>,
  \<^verbatim>\<open>retry_after_ms: int | None\<close>, \<^verbatim>\<open>details: dict | None\<close>.\<close>

fun is_JInt :: "json \<Rightarrow> bool" where
  "is_JInt (JInt n) = True"
| "is_JInt v = False"

fun is_JBool :: "json \<Rightarrow> bool" where
  "is_JBool (JBool b) = True"
| "is_JBool v = False"

definition typed_error :: "bap_error \<Rightarrow> bool" where
  "typed_error e =
     (is_JInt (code e) \<and> isinstance_str (message e) \<and> is_JBool (retryable e)
      \<and> (retry_after_ms e = JNull \<or> is_JInt (retry_after_ms e))
      \<and> (details e = JNull \<or> isinstance_dict (details e)))"

section \<open>The WebSocket transport (\<^verbatim>\<open>transport.py\<close>)\<close>

text \<open>
  The transport's state is its attributes. The socket and the network are its
  environment: whether a \<^verbatim>\<open>ws_connect\<close> succeeds is an input. What the transport does
  to the outside is recorded as a trace: the callbacks it invokes (each is invoked when
  its owner has set it), the sleeps it takes and the connection attempts it makes.
  A delay is a real number; the product of the base delay and a power of two is what the
  floating-point product is below the overflow threshold.
\<close>

datatype ws_state = NoWs | WsOpen | WsClosed

datatype task_state = NoTask | Running | Finished

datatype tcall =
    CbError pyexc
  | CbClose
  | CbReconnecting int int
  | CbReconnected
  | Sleep real
  | WsConnect bool

record transport =
  url :: string
  max_reconnect_attempts :: int
  reconnect_delay :: real
  auto_reconnect :: bool
  session_open :: bool
  ws :: ws_state
  reconnect_attempts :: int
  is_closing :: bool
  is_reconnecting :: bool
  receive_task :: task_state
  sent :: "json list"

text \<open>\<^verbatim>\<open>WebSocketTransport.__init__\<close>.\<close>

definition new_transport :: "string \<Rightarrow> int \<Rightarrow> real \<Rightarrow> bool \<Rightarrow> transport" where
  "new_transport u max_attempts delay auto =
     \<lparr>url = u, max_reconnect_attempts = max_attempts, reconnect_delay = delay,
      auto_reconnect = auto, session_open = False, ws = NoWs, reconnect_attempts = 0,
      is_closing = False, is_reconnecting = False, receive_task = NoTask, sent = []\<rparr>"

text \<open>\<^verbatim>\<open>connect\<close>: \<open>ok\<close> says whether \<^verbatim>\<open>ws_connect\<close> succeeds. On success the
  receive loop is started as a new task.\<close>

definition transport_connect :: "bool \<Rightarrow> transport \<Rightarrow> pyexc option \<times> tcall list \<times> transport" where
  "transport_connect ok t =
     (let t1 = t\<lparr>is_closing := False, session_open := True\<rparr>
      in if ok then
           (None, [WsConnect True], t1\<lparr>ws := WsOpen, reconnect_attempts := 0, receive_task := Running\<rparr>)
         else (Some ConnectFailed, [WsConnect False, CbError ConnectFailed], t1))"

text \<open>\<^verbatim>\<open>2 ** k\<close> for an integer \<open>k\<close>.\<close>

definition pow2 :: "int \<Rightarrow> real" where
  "pow2 k = (if 0 \<le> k then 2 ^ nat k else 1 / 2 ^ nat (- k))"

text \<open>The \<^verbatim>\<open>while\<close> loop of \<^verbatim>\<open>_attempt_reconnect\<close> and the \<^verbatim>\<open>raise\<close> after it.
  \<open>ok n\<close> says whether the connection attempt made when the counter is \<open>n\<close> succeeds.\<close>

function attempt_loop :: "(int \<Rightarrow> bool) \<Rightarrow> transport \<Rightarrow> pyexc option \<times> tcall list \<times> transport" where
  "attempt_loop ok t =
     (if reconnect_attempts t < max_reconnect_attempts t then
        (if is_closing t then (Some ReconnectFailed, [], t)
         else
           (let n = reconnect_attempts t + 1;
                t1 = t\<lparr>reconnect_attempts := n\<rparr>;
                delay = reconnect_delay t * pow2 (n - 1);
                pre = [CbReconnecting n (max_reconnect_attempts t), Sleep delay]
            in if ok n then
                 (None, pre @ fst (snd (transport_connect True t1)) @ [CbReconnected],
                  snd (snd (transport_connect True t1)))
               else
                 (case attempt_loop ok (snd (snd (transport_connect False t1))) of
                    (r, tr, t3) \<Rightarrow> (r, pre @ fst (snd (transport_connect False t1)) @ tr, t3))))
      else (Some ReconnectFailed, [], t))"
  by pat_completeness auto
termination
  by (relation "measure (\<lambda>(ok, t). nat (max_reconnect_attempts t - reconnect_attempts t))")
     (auto simp: transport_connect_def Let_def)

declare attempt_loop.simps [simp del]

definition attempt_reconnect :: "(int \<Rightarrow> bool) \<Rightarrow> transport \<Rightarrow> pyexc option \<times> tcall list \<times> transport" where
  "attempt_reconnect ok t =
     (if is_reconnecting t then (None, [], t)
      else (case attempt_loop ok (t\<lparr>is_reconnecting := True\<rparr>) of
              (r, tr, t') \<Rightarrow> (r, tr, t'\<lparr>is_reconnecting := False\<rparr>)))"

text \<open>The \<^verbatim>\<open>finally\<close> block of \<^verbatim>\<open>_receive_loop\<close>, reached when the loop over the
  socket's messages has ended; the task that ran the loop is over after it.\<close>

definition receive_loop_finally :: "(int \<Rightarrow> bool) \<Rightarrow> transport \<Rightarrow> tcall list \<times> transport" where
  "receive_loop_finally ok t =
     (if auto_reconnect t \<and> \<not> is_closing t then
        (case attempt_reconnect ok t of
           (Some e, tr, t') \<Rightarrow> (tr @ [CbClose], t'\<lparr>receive_task := Finished\<rparr>)
         | (None, tr, t') \<Rightarrow> (tr, t'))
      else ([CbClose], t\<lparr>receive_task := Finished\<rparr>))"

text \<open>\<^verbatim>\<open>send\<close>; \<^verbatim>\<open>send_str\<close> on an open socket is taken to succeed. The message is
  kept as the value \<^verbatim>\<open>json.dumps\<close> was given.\<close>

definition transport_send :: "json \<Rightarrow> transport \<Rightarrow> pyexc + transport" where
  "transport_send msg t =
     (if ws t = NoWs \<or> ws t = WsClosed then Inl NotConnected
      else Inr (t\<lparr>sent := sent t @ [msg]\<rparr>))"

text \<open>\<^verbatim>\<open>close\<close>: cancelling the receive task while it waits for a message runs its
  \<^verbatim>\<open>finally\<close> block with \<^verbatim>\<open>_is_closing\<close> set, which calls \<^verbatim>\<open>on_close\<close>.\<close>

definition transport_close :: "transport \<Rightarrow> tcall list \<times> transport" where
  "transport_close t =
     (let t1 = t\<lparr>is_closing := True\<rparr>;
          cbs = (if receive_task t1 = Running then [CbClose] else [])
      in (cbs, t1\<lparr>receive_task := NoTask, ws := NoWs, session_open := False,
                  reconnect_attempts := 0\<rparr>))"

section \<open>The client (\<^verbatim>\<open>client.py\<close>)\<close>

subsection \<open>State\<close>

text \<open>
  A future is an object on the heap: the pending table and the caller that awaits it
  share it. \<open>futures\<close> is that heap, addressed by reference; the call with correlation id
  \<open>n\<close> creates the future and the timer with reference \<open>n\<close>. A timer remembers the method
  its \<^verbatim>\<open>on_timeout\<close> closure was created with.
\<close>

datatype future_state = FPending | FResult json | FException pyexc | FCancelled

datatype timer_state = Armed | TimerCancelled | Fired

text \<open>What a handler is called with, and the records the client writes to its logger.\<close>

datatype harg = Params json | Model json | NoArgs | Exc pyexc

datatype diag =
    ParseFailed
  | UnknownRequest json
  | StreamChunkHandlerError string
  | StreamEndHandlerError string
  | ApprovalHandlerError string
  | EventHandlerError string
  | CloseHandlerError string
  | ErrorHandlerError string
  | OlderServerVersion string

text \<open>A registered callback: an identity and what it does when called, returning
  (\<open>None\<close>) or raising an \<^verbatim>\<open>Exception\<close> with a message. Callbacks that reach back into
  the client are outside the embedding.\<close>

type_synonym handler = "nat \<times> (harg \<Rightarrow> string option)"

record client =
  name :: string
  version :: string
  events :: "string list"
  transport :: transport
  request_id :: int
  pending_requests :: "(int \<times> (int \<times> int)) list"
  futures :: "int \<rightharpoonup> future_state"
  timers :: "int \<rightharpoonup> (timer_state \<times> string)"
  initialized :: bool
  server_capabilities :: json
  active_page :: json
  event_handlers :: "(string \<times> handler list) list"
  stream_chunk_handlers :: "handler list"
  stream_end_handlers :: "handler list"
  approval_handlers :: "handler list"
  diagnostics :: "diag list"
  calls :: "(nat \<times> harg) list"

text \<open>The environment of a run: the pydantic validators the client calls
  (\<^verbatim>\<open>model_validate\<close> of \<^verbatim>\<open>StreamChunkParams\<close>, \<^verbatim>\<open>StreamEndParams\<close>,
  \<^verbatim>\<open>ApprovalRequiredParams\<close> and \<^verbatim>\<open>InitializeResult\<close>; \<open>None\<close> is a
  \<^verbatim>\<open>ValidationError\<close>) and the outcomes of the transport's reconnection attempts.\<close>

record env =
  validate_chunk :: "json \<Rightarrow> json option"
  validate_end :: "json \<Rightarrow> json option"
  validate_approval :: "json \<Rightarrow> json option"
  validate_initialize :: "json \<Rightarrow> json option"
  reconnect_ok :: "int \<Rightarrow> bool"

text \<open>\<^verbatim>\<open>BAPClient.__init__\<close>, after the token has been put into the URL.\<close>

definition BAP_VERSION :: string where
  "BAP_VERSION = ''0.2.0''"

definition new_client :: "string \<Rightarrow> string \<Rightarrow> string \<Rightarrow> string list \<Rightarrow> client" where
  "new_client u nm ver evs =
     \<lparr>name = nm, version = ver,
      events = (if evs \<noteq> [] then evs else [''page'', ''console'', ''network'', ''dialog'']),
      transport = new_transport u 5 1 False,
      request_id = 0, pending_requests = [], futures = Map.empty, timers = Map.empty,
      initialized = False, server_capabilities = JNull, active_page = JNull,
      event_handlers =
        [(''page'', []), (''console'', []), (''network'', []), (''dialog'', []),
         (''download'', []), (''close'', []), (''error'', [])],
      stream_chunk_handlers = [], stream_end_handlers = [], approval_handlers = [],
      diagnostics = [], calls = []\<rparr>"

subsection \<open>Handler registration and invocation\<close>



text \<open>The loop \<^verbatim>\<open>for handler in handlers: try: handler(arg) except Exception as e:
  logger.error(...)\<close>.\<close>

fun run_handlers :: "(string \<Rightarrow> diag) \<Rightarrow> handler list \<Rightarrow> harg \<Rightarrow> client \<Rightarrow> client" where
  "run_handlers mk [] arg s = s"
| "run_handlers mk (h # hs) arg s =
     (let s1 = s\<lparr>calls := calls s @ [(fst h, arg)]\<rparr>;
          s2 = (case snd h arg of
                  None \<Rightarrow> s1
                | Some msg \<Rightarrow> s1\<lparr>diagnostics := diagnostics s1 @ [mk msg]\<rparr>)
      in run_handlers mk hs arg s2)"

definition handlers_for :: "(string \<times> handler list) list \<Rightarrow> string \<Rightarrow> handler list" where
  "handlers_for reg ev = (case map_of reg ev of None \<Rightarrow> [] | Some hs \<Rightarrow> hs)"

definition handle_close :: "client \<Rightarrow> client" where
  "handle_close s = run_handlers CloseHandlerError (handlers_for (event_handlers s) ''close'') NoArgs s"

definition handle_error :: "pyexc \<Rightarrow> client \<Rightarrow> client" where
  "handle_error e s = run_handlers ErrorHandlerError (handlers_for (event_handlers s) ''error'') (Exc e) s"

text \<open>The transport's callbacks as the client's constructor sets them: \<^verbatim>\<open>on_close\<close>
  and \<^verbatim>\<open>on_error\<close>; it sets neither \<^verbatim>\<open>on_reconnecting\<close> nor
  \<^verbatim>\<open>on_reconnected\<close>.\<close>

fun dispatch :: "tcall list \<Rightarrow> client \<Rightarrow> client" where
  "dispatch [] s = s"
| "dispatch (CbError e # cs) s = dispatch cs (handle_error e s)"
| "dispatch (CbClose # cs) s = dispatch cs (handle_close s)"
| "dispatch (c # cs) s = dispatch cs s"

subsection \<open>Responses\<close>

text \<open>\<^verbatim>\<open>is_error_response\<close> of \<^verbatim>\<open>types/protocol.py\<close>, on a dict.\<close>

definition is_error_response :: "(string \<times> json) list \<Rightarrow> bool" where
  "is_error_response response =
     (case map_of response ''error'' of
        None \<Rightarrow> False
      | Some (JObj err) \<Rightarrow>
          isinstance_int (dict_get err ''code'' JNull) \<and> isinstance_str (dict_get err ''message'' JNull)
      | Some v \<Rightarrow> False)"

text \<open>\<^verbatim>\<open>key in self._pending_requests\<close> for a decoded value: the table's keys are
  integers, \<^verbatim>\<open>True\<close> and \<^verbatim>\<open>False\<close> hash and compare as 1 and 0, a list or a dict is
  unhashable, and no other value equals an integer.\<close>

fun pending_key :: "json \<Rightarrow> pyexc + int option" where
  "pending_key (JInt n) = Inr (Some n)"
| "pending_key (JBool b) = Inr (Some (if b then 1 else 0))"
| "pending_key (JList xs) = Inl TypeError"
| "pending_key (JObj kvs) = Inl TypeError"
| "pending_key v = Inr None"

definition pop :: "int \<Rightarrow> (int \<times> 'a) list \<Rightarrow> (int \<times> 'a) list" where
  "pop k tab = filter (\<lambda>kv. fst kv \<noteq> k) tab"

definition cancel_timer :: "int \<Rightarrow> client \<Rightarrow> client" where
  "cancel_timer t s =
     (case timers s t of
        None \<Rightarrow> s
      | Some (st, m) \<Rightarrow> s\<lparr>timers := (timers s)(t \<mapsto> (TimerCancelled, m))\<rparr>)"

text \<open>\<^verbatim>\<open>future.done()\<close>, and \<^verbatim>\<open>set_result\<close>/\<^verbatim>\<open>set_exception\<close> on a future
  that is not done (every call site checks \<^verbatim>\<open>done()\<close> first).\<close>

definition future_done :: "client \<Rightarrow> int \<Rightarrow> bool" where
  "future_done s f = (futures s f \<noteq> Some FPending)"

definition settle :: "int \<Rightarrow> future_state \<Rightarrow> client \<Rightarrow> client" where
  "settle f v s = s\<lparr>futures := (futures s)(f \<mapsto> v)\<rparr>"

text \<open>\<^verbatim>\<open>_handle_response\<close>. The result is the exception that leaves the function, if
  any, and the state it leaves behind.\<close>

definition unknown_request :: "json \<Rightarrow> client \<Rightarrow> pyexc option \<times> client" where
  "unknown_request rid s = (None, s\<lparr>diagnostics := diagnostics s @ [UnknownRequest rid]\<rparr>)"

definition handle_response :: "json \<Rightarrow> client \<Rightarrow> pyexc option \<times> client" where
  "handle_response data s =
     (case data of
        JObj kvs \<Rightarrow>
          (let rid = dict_get kvs ''id'' JNull
           in case pending_key rid of
                Inl e \<Rightarrow> (Some e, s)
              | Inr None \<Rightarrow> unknown_request rid s
              | Inr (Some n) \<Rightarrow>
                  (case map_of (pending_requests s) n of
                     None \<Rightarrow> unknown_request rid s
                   | Some (future, timer) \<Rightarrow>
                       (let s1 = cancel_timer timer (s\<lparr>pending_requests := pop n (pending_requests s)\<rparr>)
                        in if future_done s1 future then (None, s1)
                           else if is_error_response kvs then
                             (case from_dict (dict_get kvs ''error'' JNull) of
                                Inl e \<Rightarrow> (Some e, s1)
                              | Inr error \<Rightarrow> (None, settle future (FException (BAP error)) s1))
                           else (None, settle future (FResult (dict_get kvs ''result'' JNull)) s1))))
      | v \<Rightarrow> (Some AttributeError, s))"

subsection \<open>Notifications\<close>

fun split_on :: "char \<Rightarrow> string \<Rightarrow> string list" where
  "split_on c [] = [[]]"
| "split_on c (x # xs) =
     (if x = c then [] # split_on c xs
      else (x # hd (split_on c xs)) # tl (split_on c xs))"

definition startswith :: "string \<Rightarrow> string \<Rightarrow> bool" where
  "startswith s p = (take (length p) s = p)"

text \<open>The three dedicated branches of \<^verbatim>\<open>_handle_notification\<close> have one shape:
  validate the params, then call every handler of one list.\<close>

definition validated_dispatch ::
  "(json \<Rightarrow> json option) \<Rightarrow> (string \<Rightarrow> diag) \<Rightarrow> handler list \<Rightarrow> json \<Rightarrow> client \<Rightarrow> pyexc option \<times> client" where
  "validated_dispatch validate mk hs params s =
     (case validate params of
        None \<Rightarrow> (Some ValidationError, s)
      | Some m \<Rightarrow> (None, run_handlers mk hs (Model m) s))"

definition handle_notification :: "env \<Rightarrow> json \<Rightarrow> client \<Rightarrow> pyexc option \<times> client" where
  "handle_notification E data s =
     (case py_get data ''method'' (JStr []) of
        Inl e \<Rightarrow> (Some e, s)
      | Inr method \<Rightarrow>
     (case py_get data ''params'' (JObj []) of
        Inl e \<Rightarrow> (Some e, s)
      | Inr params \<Rightarrow>
          if method = JStr ''stream/chunk'' then
            validated_dispatch (validate_chunk E) StreamChunkHandlerError (stream_chunk_handlers s) params s
          else if method = JStr ''stream/end'' then
            validated_dispatch (validate_end E) StreamEndHandlerError (stream_end_handlers s) params s
          else if method = JStr ''approval/required'' then
            validated_dispatch (validate_approval E) ApprovalHandlerError (approval_handlers s) params s
          else
            (case method of
               JStr m \<Rightarrow>
                 (let event_type = (if startswith m ''event/'' then split_on CHR ''/'' m ! 1 else m)
                  in case map_of (event_handlers s) event_type of
                       None \<Rightarrow> (None, s)
                     | Some hs \<Rightarrow> (None, run_handlers EventHandlerError hs (Params params) s))
             | v \<Rightarrow> (Some AttributeError, s))))"

subsection \<open>\<^verbatim>\<open>_handle_message\<close>\<close>

fun contains_str :: "string \<Rightarrow> string \<Rightarrow> bool" where
  "contains_str sub [] = (sub = [])"
| "contains_str sub (c # cs) = (take (length sub) (c # cs) = sub \<or> contains_str sub cs)"

text \<open>\<^verbatim>\<open>key in data\<close> for a decoded value: key membership for a dict, element
  membership for a list, substring test for a string, \<^verbatim>\<open>TypeError\<close> otherwise.\<close>

fun py_in :: "string \<Rightarrow> json \<Rightarrow> pyexc + bool" where
  "py_in k (JObj kvs) = Inr (k \<in> fst ` set kvs)"
| "py_in k (JList xs) = Inr (JStr k \<in> set xs)"
| "py_in k (JStr str) = Inr (contains_str k str)"
| "py_in k v = Inl TypeError"

text \<open>The argument is what \<^verbatim>\<open>json.loads(message)\<close> gives: \<open>None\<close> for a
  \<^verbatim>\<open>JSONDecodeError\<close>.\<close>

definition handle_message :: "env \<Rightarrow> json option \<Rightarrow> client \<Rightarrow> pyexc option \<times> client" where
  "handle_message E parsed s =
     (case parsed of
        None \<Rightarrow> (None, s\<lparr>diagnostics := diagnostics s @ [ParseFailed]\<rparr>)
      | Some data \<Rightarrow>
          (case py_in ''id'' data of
             Inl e \<Rightarrow> (Some e, s)
           | Inr True \<Rightarrow> handle_response data s
           | Inr False \<Rightarrow>
               (case py_in ''method'' data of
                  Inl e \<Rightarrow> (Some e, s)
                | Inr True \<Rightarrow> handle_notification E data s
                | Inr False \<Rightarrow> (None, s))))"

subsection \<open>Calls\<close>

text \<open>\<^verbatim>\<open>create_request\<close> of \<^verbatim>\<open>types/protocol.py\<close>.\<close>

definition create_request :: "json \<Rightarrow> string \<Rightarrow> json \<Rightarrow> json" where
  "create_request rid method params =
     JObj ([(''jsonrpc'', JStr ''2.0''), (''id'', rid), (''method'', JStr method)]
           @ (if params \<noteq> JNull then [(''params'', params)] else []))"

text \<open>\<^verbatim>\<open>table[k] = v\<close>.\<close>

definition dict_set :: "int \<Rightarrow> 'a \<Rightarrow> (int \<times> 'a) list \<Rightarrow> (int \<times> 'a) list" where
  "dict_set k v tab =
     (if k \<in> set (map fst tab) then map (\<lambda>kv. if fst kv = k then (k, v) else kv) tab
      else tab @ [(k, v)])"

text \<open>\<^verbatim>\<open>_request\<close> up to the \<^verbatim>\<open>try\<close>: the next id, the request, a new future, a
  timer armed with \<^verbatim>\<open>on_timeout\<close>, the entry in the table.\<close>

definition request_begin :: "string \<Rightarrow> json \<Rightarrow> client \<Rightarrow> int \<times> json \<times> client" where
  "request_begin method params s =
     (let rid = request_id s + 1
      in (rid, create_request (JInt rid) method params,
          s\<lparr>request_id := rid,
            futures := (futures s)(rid \<mapsto> FPending),
            timers := (timers s)(rid \<mapsto> (Armed, method)),
            pending_requests := dict_set rid (rid, rid) (pending_requests s)\<rparr>))"

text \<open>The closure \<^verbatim>\<open>on_timeout\<close> of the call \<open>rid\<close> to \<open>method\<close>.\<close>

definition timeout_error :: "string \<Rightarrow> bap_error" where
  "timeout_error method =
     init_error BAPError (JInt Timeout) (JStr (''Request timeout: '' @ method)) (JBool True) JNull JNull"

definition on_timeout :: "int \<Rightarrow> string \<Rightarrow> client \<Rightarrow> client" where
  "on_timeout rid method s =
     (case map_of (pending_requests s) rid of
        None \<Rightarrow> s
      | Some (f, t) \<Rightarrow>
          (let s1 = s\<lparr>pending_requests := pop rid (pending_requests s)\<rparr>
           in if future_done s1 f then s1
              else settle f (FException (BAP (timeout_error method))) s1))"

text \<open>The \<^verbatim>\<open>except Exception\<close> block of \<^verbatim>\<open>_request\<close>.\<close>

definition request_cleanup :: "int \<Rightarrow> client \<Rightarrow> client" where
  "request_cleanup rid s =
     (case map_of (pending_requests s) rid of
        None \<Rightarrow> s
      | Some (f, t) \<Rightarrow> cancel_timer t (s\<lparr>pending_requests := pop rid (pending_requests s)\<rparr>))"

subsection \<open>What happens while a caller waits\<close>

text \<open>
  While a coroutine is suspended the event loop runs other things, one at a time: the
  receive loop takes a message from the socket (a text frame, with what
  \<^verbatim>\<open>json.loads\<close> makes of it; an error frame; the end of the stream), a timer expires,
  or the task that awaits a call is cancelled by its owner.
\<close>

datatype event =
    Text "json option"
  | WsError
  | WsEnd
  | TimerExpired int
  | TaskCancelled int

text \<open>Leaving the loop of \<^verbatim>\<open>_receive_loop\<close>: its \<^verbatim>\<open>finally\<close> block, with the
  client's callbacks.\<close>

definition loop_exit :: "env \<Rightarrow> client \<Rightarrow> client" where
  "loop_exit E s =
     (case receive_loop_finally (reconnect_ok E) (transport s) of
        (tr, t') \<Rightarrow> dispatch tr (s\<lparr>transport := t'\<rparr>))"

definition step :: "env \<Rightarrow> event \<Rightarrow> client \<Rightarrow> client" where
  "step E ev s =
     (case ev of
        Text parsed \<Rightarrow>
          (if receive_task (transport s) = Running then
             (case handle_message E parsed s of
                (None, s1) \<Rightarrow> s1
              | (Some e, s1) \<Rightarrow> loop_exit E (handle_error e s1))
           else s)
      | WsError \<Rightarrow>
          (if receive_task (transport s) = Running then loop_exit E (handle_error WebSocketError s)
           else s)
      | WsEnd \<Rightarrow>
          (if receive_task (transport s) = Running then
             loop_exit E (s\<lparr>transport := (transport s)\<lparr>ws := WsClosed\<rparr>\<rparr>)
           else s)
      | TimerExpired t \<Rightarrow>
          (case timers s t of
             Some (Armed, m) \<Rightarrow> on_timeout t m (s\<lparr>timers := (timers s)(t \<mapsto> (Fired, m))\<rparr>)
           | other \<Rightarrow> s)
      | TaskCancelled f \<Rightarrow>
          (if futures s f = Some FPending then settle f FCancelled s else s))"

fun run :: "env \<Rightarrow> event list \<Rightarrow> client \<Rightarrow> client" where
  "run E [] s = s"
| "run E (ev # evs) s = run E evs (step E ev s)"

text \<open>\<^verbatim>\<open>await future\<close>: events are taken until the future is done. When they run out
  first, the caller is still suspended.\<close>

fun await_future :: "env \<Rightarrow> int \<Rightarrow> event list \<Rightarrow> client \<Rightarrow> future_state \<times> event list \<times> client" where
  "await_future E f [] s = (case futures s f of Some st \<Rightarrow> st | None \<Rightarrow> FPending, [], s)"
| "await_future E f (ev # evs) s =
     (if future_done s f then (case futures s f of Some st \<Rightarrow> st | None \<Rightarrow> FPending, ev # evs, s)
      else await_future E f evs (step E ev s))"

datatype 'a res = Return 'a | Raise pyexc | Waiting

text \<open>\<^verbatim>\<open>_request\<close>. The result comes with the events not yet taken and the state.\<close>

definition request ::
  "env \<Rightarrow> string \<Rightarrow> json \<Rightarrow> event list \<Rightarrow> client \<Rightarrow> json res \<times> event list \<times> client" where
  "request E method params evs s =
     (case request_begin method params s of
        (rid, req, s1) \<Rightarrow>
          (case transport_send req (transport s1) of
             Inl e \<Rightarrow> (Raise e, evs, request_cleanup rid s1)
           | Inr t' \<Rightarrow>
               (case await_future E rid evs (s1\<lparr>transport := t'\<rparr>) of
                  (FResult v, rest, s2) \<Rightarrow> (Return v, rest, s2)
                | (FException e, rest, s2) \<Rightarrow>
                    (Raise e, rest, if is_Exception e then request_cleanup rid s2 else s2)
                | (FCancelled, rest, s2) \<Rightarrow> (Raise CancelledError, rest, s2)
                | (FPending, rest, s2) \<Rightarrow> (Waiting, rest, s2))))"

text \<open>\<^verbatim>\<open>_notify\<close>.\<close>

definition notify :: "string \<Rightarrow> json \<Rightarrow> client \<Rightarrow> pyexc option \<times> client" where
  "notify method params s =
     (let notification =
            JObj ([(''jsonrpc'', JStr ''2.0''), (''method'', JStr method)]
                  @ (if params \<noteq> JNull then [(''params'', params)] else []))
      in case transport_send notification (transport s) of
           Inl e \<Rightarrow> (Some e, s)
         | Inr t' \<Rightarrow> (None, s\<lparr>transport := t'\<rparr>))"

subsection \<open>Version strings\<close>

text \<open>\<^verbatim>\<open>int(x)\<close> for a string of code points below 256: surrounding whitespace, an
  optional sign, decimal digits with single underscores between digits. \<open>None\<close> is a
  \<^verbatim>\<open>ValueError\<close>. (CPython's limit on the number of digits is not modelled.)\<close>

definition is_digit :: "char \<Rightarrow> bool" where
  "is_digit c = (let n = (of_char c :: nat) in 48 \<le> n \<and> n \<le> 57)"

definition digit_val :: "char \<Rightarrow> int" where
  "digit_val c = int (of_char c) - 48"

definition py_space :: "char \<Rightarrow> bool" where
  "py_space c =
     (let n = (of_char c :: nat)
      in (9 \<le> n \<and> n \<le> 13) \<or> (28 \<le> n \<and> n \<le> 32) \<or> n = 133 \<or> n = 160)"

fun more_digits :: "int \<Rightarrow> string \<Rightarrow> int option" where
  "more_digits acc [] = Some acc"
| "more_digits acc [c] = (if is_digit c then Some (acc * 10 + digit_val c) else None)"
| "more_digits acc (c # d # cs) =
     (if is_digit c then more_digits (acc * 10 + digit_val c) (d # cs)
      else if c = CHR ''_'' \<and> is_digit d then more_digits (acc * 10 + digit_val d) cs
      else None)"

definition unsigned_int :: "string \<Rightarrow> int option" where
  "unsigned_int s =
     (case s of
        [] \<Rightarrow> None
      | c # cs \<Rightarrow> if is_digit c then more_digits (digit_val c) cs else None)"

definition strip :: "string \<Rightarrow> string" where
  "strip s = rev (dropWhile py_space (rev (dropWhile py_space s)))"

definition py_int :: "string \<Rightarrow> int option" where
  "py_int s =
     (case strip s of
        [] \<Rightarrow> None
      | c # cs \<Rightarrow>
          if c = CHR ''-'' then map_option uminus (unsigned_int cs)
          else if c = CHR ''+'' then unsigned_int cs
          else unsigned_int (c # cs))"

text \<open>\<^verbatim>\<open>[int(x) for x in v.split(".")]\<close>.\<close>

fun all_some :: "'a option list \<Rightarrow> 'a list option" where
  "all_some [] = Some []"
| "all_some (None # xs) = None"
| "all_some (Some x # xs) = map_option ((#) x) (all_some xs)"

definition version_parts :: "string \<Rightarrow> pyexc + int list" where
  "version_parts v =
     (case all_some (map py_int (split_on CHR ''.'' v)) of
        None \<Rightarrow> Inl ValueError
      | Some ps \<Rightarrow> Inr ps)"

definition index :: "'a list \<Rightarrow> nat \<Rightarrow> pyexc + 'a" where
  "index xs i = (if i < length xs then Inr (xs ! i) else Inl IndexError)"

definition version_mismatch :: "string \<Rightarrow> bap_error" where
  "version_mismatch server_version =
     init_error BAPError (JInt InvalidRequest)
       (JStr (''Protocol version mismatch: client='' @ BAP_VERSION @ '', server='' @ server_version
              @ ''. Major version must match.''))
       (JBool False) JNull JNull"

text \<open>The version validation of \<^verbatim>\<open>connect\<close>: an exception, or whether the warning
  about an older server is logged, with the server's version string.\<close>

definition check_version :: "json \<Rightarrow> pyexc + bool \<times> string" where
  "check_version result =
     bindE (py_get result ''protocolVersion'' (JStr ''0.0.0'')) (\<lambda>sv.
       case sv of
         JStr server_version \<Rightarrow>
           bindE (version_parts server_version) (\<lambda>server_parts.
           bindE (version_parts BAP_VERSION) (\<lambda>client_parts.
           bindE (index server_parts 0) (\<lambda>s0.
           bindE (index client_parts 0) (\<lambda>c0.
             if s0 \<noteq> c0 then Inl (BAP (version_mismatch server_version))
             else
               bindE (index server_parts 1) (\<lambda>s1.
               bindE (index client_parts 1) (\<lambda>c1.
                 Inr (s1 < c1, server_version)))))))
       | v \<Rightarrow> Inl AttributeError)"

subsection \<open>\<^verbatim>\<open>connect\<close>, \<^verbatim>\<open>close\<close>, \<^verbatim>\<open>activate_page\<close>\<close>

definition initialize_params :: "client \<Rightarrow> json" where
  "initialize_params s =
     JObj [(''protocolVersion'', JStr BAP_VERSION),
           (''clientInfo'', JObj [(''name'', JStr (name s)), (''version'', JStr (version s))]),
           (''capabilities'',
              JObj [(''events'', JList (map JStr (events s))), (''streaming'', JBool False),
                    (''compression'', JBool False)])]"

text \<open>The end of \<^verbatim>\<open>connect\<close>, from the subscription on.\<close>

definition connect_subscribe ::
  "env \<Rightarrow> json \<Rightarrow> event list \<Rightarrow> client \<Rightarrow> json res \<times> event list \<times> client" where
  "connect_subscribe E result evs s =
     (let finish = (case validate_initialize E result of
                      None \<Rightarrow> Raise ValidationError
                    | Some m \<Rightarrow> Return m)
      in if events s \<noteq> [] then
           (case request E ''events/subscribe'' (JObj [(''events'', JList (map JStr (events s)))]) evs s of
              (Return v, rest, s1) \<Rightarrow> (finish, rest, s1)
            | (Raise e, rest, s1) \<Rightarrow> (Raise e, rest, s1)
            | (Waiting, rest, s1) \<Rightarrow> (Waiting, rest, s1))
         else (finish, evs, s))"

text \<open>\<^verbatim>\<open>connect\<close>; \<open>ws_ok\<close> says whether the socket can be opened.\<close>

definition connect :: "env \<Rightarrow> bool \<Rightarrow> event list \<Rightarrow> client \<Rightarrow> json res \<times> event list \<times> client" where
  "connect E ws_ok evs s =
     (case transport_connect ws_ok (transport s) of
        (Some e, cbs, t') \<Rightarrow> (Raise e, evs, dispatch cbs (s\<lparr>transport := t'\<rparr>))
      | (None, cbs, t') \<Rightarrow>
          (case request E ''initialize'' (initialize_params s) evs (dispatch cbs (s\<lparr>transport := t'\<rparr>)) of
             (Raise e, rest, s1) \<Rightarrow> (Raise e, rest, s1)
           | (Waiting, rest, s1) \<Rightarrow> (Waiting, rest, s1)
           | (Return result, rest, s1) \<Rightarrow>
               (case check_version result of
                  Inl e \<Rightarrow> (Raise e, rest, s1)
                | Inr (older, server_version) \<Rightarrow>
                    (let s2 = (if older
                               then s1\<lparr>diagnostics := diagnostics s1 @ [OlderServerVersion server_version]\<rparr>
                               else s1);
                         s3 = s2\<lparr>initialized := True\<rparr>
                     in case py_get result ''capabilities'' JNull of
                          Inl e \<Rightarrow> (Raise e, rest, s3)
                        | Inr caps \<Rightarrow>
                            (case notify ''notifications/initialized'' JNull
                                    (s3\<lparr>server_capabilities := caps\<rparr>) of
                               (Some e, s4) \<Rightarrow> (Raise e, rest, s4)
                             | (None, s4) \<Rightarrow> connect_subscribe E result rest s4)))))"

text \<open>\<^verbatim>\<open>close\<close>, first part: the shutdown call, whose \<^verbatim>\<open>Exception\<close> is swallowed.\<close>

definition close_shutdown :: "env \<Rightarrow> event list \<Rightarrow> client \<Rightarrow> unit res \<times> event list \<times> client" where
  "close_shutdown E evs s =
     (if initialized s then
        (case request E ''shutdown'' (JObj [(''saveState'', JBool False), (''closePages'', JBool True)]) evs s of
           (Return v, rest, s1) \<Rightarrow> (Return (), rest, s1)
         | (Raise e, rest, s1) \<Rightarrow> (if is_Exception e then Return () else Raise e, rest, s1)
         | (Waiting, rest, s1) \<Rightarrow> (Waiting, rest, s1))
      else (Return (), evs, s))"

text \<open>\<^verbatim>\<open>close\<close>, second part: from \<^verbatim>\<open>await self._transport.close()\<close> to the end,
  taken as one step.\<close>

definition client_closed :: bap_error where
  "client_closed = init_error BAPError (JInt ServerError) (JStr ''Client closed'') (JBool False) JNull JNull"

definition cancel_pending :: "int \<times> int \<times> int \<Rightarrow> client \<Rightarrow> client" where
  "cancel_pending entry s =
     (case entry of
        (rid, future, timer) \<Rightarrow>
          (let s1 = cancel_timer timer s
           in if future_done s1 future then s1
              else settle future (FException (BAP client_closed)) s1))"

definition close_teardown :: "client \<Rightarrow> client" where
  "close_teardown s =
     (case transport_close (transport s) of
        (cbs, t') \<Rightarrow>
          (let s1 = dispatch cbs (s\<lparr>transport := t'\<rparr>);
               s2 = s1\<lparr>initialized := False, server_capabilities := JNull\<rparr>;
               s3 = fold cancel_pending (pending_requests s2) s2
           in s3\<lparr>pending_requests := []\<rparr>))"

definition close :: "env \<Rightarrow> event list \<Rightarrow> client \<Rightarrow> unit res \<times> event list \<times> client" where
  "close E evs s =
     (case close_shutdown E evs s of
        (Return u, rest, s1) \<Rightarrow> (Return (), rest, close_teardown s1)
      | (Raise e, rest, s1) \<Rightarrow> (Raise e, rest, s1)
      | (Waiting, rest, s1) \<Rightarrow> (Waiting, rest, s1))"

definition activate_page :: "env \<Rightarrow> string \<Rightarrow> event list \<Rightarrow> client \<Rightarrow> unit res \<times> event list \<times> client" where
  "activate_page E page_id evs s =
     (case request E ''page/activate'' (JObj [(''pageId'', JStr page_id)]) evs s of
        (Return v, rest, s1) \<Rightarrow> (Return (), rest, s1\<lparr>active_page := JStr page_id\<rparr>)
      | (Raise e, rest, s1) \<Rightarrow> (Raise e, rest, s1)
      | (Waiting, rest, s1) \<Rightarrow> (Waiting, rest, s1))"

section \<open>Vocabulary of the properties\<close>


definition is_response :: "(string \<times> json) list \<Rightarrow> bool" where
  "is_response msg = (''id'' \<in> fst ` set msg \<and> ''method'' \<notin> fst ` set msg)"

definition is_notification :: "(string \<times> json) list \<Rightarrow> bool" where
  "is_notification msg = (''id'' \<notin> fst ` set msg \<and> ''method'' \<in> fst ` set msg)"

text \<open>One failed reconnection attempt, as the transport's trace shows it: the
  notification, the sleep, the attempt, the error callback of \<^verbatim>\<open>connect\<close>.\<close>

definition failed_attempt :: "transport \<Rightarrow> int \<Rightarrow> tcall list" where
  "failed_attempt t n =
     [CbReconnecting n (max_reconnect_attempts t), Sleep (reconnect_delay t * pow2 (n - 1)),
      WsConnect False, CbError ConnectFailed]"

text \<open>
  A client in use, seen from the event loop: calls are issued (\<^verbatim>\<open>_request\<close> up to
  its \<^verbatim>\<open>await future\<close>, with the clean-up when the send fails), things happen while
  the callers wait, and the table is torn down by \<^verbatim>\<open>close\<close>. \<open>perform\<close> runs such a
  sequence and returns the correlation ids of the calls in the order of issue.
\<close>

datatype action = Issue string json | Happen event | Teardown

definition issue :: "string \<Rightarrow> json \<Rightarrow> client \<Rightarrow> int \<times> client" where
  "issue method params s =
     (case request_begin method params s of
        (rid, req, s1) \<Rightarrow>
          (case transport_send req (transport s1) of
             Inl e \<Rightarrow> (rid, request_cleanup rid s1)
           | Inr t' \<Rightarrow> (rid, s1\<lparr>transport := t'\<rparr>)))"

fun perform :: "env \<Rightarrow> action list \<Rightarrow> client \<Rightarrow> int list \<times> client" where
  "perform E [] s = ([], s)"
| "perform E (Issue method params # acts) s =
     (case issue method params s of
        (rid, s1) \<Rightarrow> (case perform E acts s1 of (ids, s2) \<Rightarrow> (rid # ids, s2)))"
| "perform E (Happen ev # acts) s = perform E acts (step E ev s)"
| "perform E (Teardown # acts) s = perform E acts (close_teardown s)"


text \<open>What an operation leaves alone: the attributes that make up the session, and
  everything but the log and the record of handler calls.\<close>

definition same_session :: "client \<Rightarrow> client \<Rightarrow> bool" where
  "same_session s s' =
     (name s' = name s \<and> version s' = version s \<and> events s' = events s
      \<and> request_id s' = request_id s \<and> initialized s' = initialized s
      \<and> server_capabilities s' = server_capabilities s \<and> active_page s' = active_page s
      \<and> event_handlers s' = event_handlers s
      \<and> stream_chunk_handlers s' = stream_chunk_handlers s
      \<and> stream_end_handlers s' = stream_end_handlers s
      \<and> approval_handlers s' = approval_handlers s)"

definition log_only :: "client \<Rightarrow> client \<Rightarrow> bool" where
  "log_only s s' =
     (same_session s s' \<and> transport s' = transport s
      \<and> pending_requests s' = pending_requests s \<and> futures s' = futures s
      \<and> timers s' = timers s)"

text \<open>What holds of the futures: no future has a reference above the last correlation
  id; and from one state to a later one, a future that is done stays as it is and no
  future appears.\<close>

definition fresh_above :: "client \<Rightarrow> bool" where
  "fresh_above s = (\<forall>f. request_id s < f \<longrightarrow> futures s f = None)"

definition settled_stay :: "client \<Rightarrow> client \<Rightarrow> bool" where
  "settled_stay s s' =
     ((\<forall>f v. futures s f = Some v \<longrightarrow> v \<noteq> FPending \<longrightarrow> futures s' f = Some v)
      \<and> (\<forall>f. futures s f = None \<longrightarrow> futures s' f = None))"



definition major :: "string \<Rightarrow> int option" where
  "major v = (case version_parts v of Inr (m # ms) \<Rightarrow> Some m | other \<Rightarrow> None)"

subsection \<open>A concrete environment and a concrete session\<close>

text \<open>
  Validators that check what the declared models require of a decoded payload: the
  required fields of \<^verbatim>\<open>StreamChunkParams\<close> with their JSON types (\<^verbatim>\<open>streamId\<close> by
  alias or by name), and the presence of the required fields of the other models. The
  conversions pydantic adds in its default mode are not part of them. The validated model
  is represented by the payload.
\<close>

definition has_keys :: "string list \<Rightarrow> json \<Rightarrow> json option" where
  "has_keys ks v =
     (case v of
        JObj kvs \<Rightarrow> if list_all (\<lambda>k. k \<in> fst ` set kvs) ks then Some v else None
      | other \<Rightarrow> None)"

definition chunk_schema :: "json \<Rightarrow> json option" where
  "chunk_schema v =
     (case v of
        JObj kvs \<Rightarrow>
          (if isinstance_str (dict_get kvs ''streamId'' (dict_get kvs ''stream_id'' JNull))
              \<and> is_JInt (dict_get kvs ''index'' JNull)
              \<and> isinstance_str (dict_get kvs ''data'' JNull)
              \<and> is_JInt (dict_get kvs ''offset'' JNull)
              \<and> is_JInt (dict_get kvs ''size'' JNull)
           then Some v else None)
      | other \<Rightarrow> None)"

definition schema_env :: env where
  "schema_env =
     \<lparr>validate_chunk = chunk_schema,
      validate_end = has_keys [''streamId'', ''totalChunks'', ''totalSize''],
      validate_approval = has_keys [''requestId'', ''originalRequest'', ''rule'', ''context'', ''expiresAt''],
      validate_initialize = has_keys [''protocolVersion'', ''serverInfo'', ''capabilities''],
      reconnect_ok = (\<lambda>n. False)\<rparr>"

definition result_response :: "int \<Rightarrow> json \<Rightarrow> json" where
  "result_response rid v = JObj [(''jsonrpc'', JStr ''2.0''), (''id'', JInt rid), (''result'', v)]"

definition initialize_result :: "string \<Rightarrow> json" where
  "initialize_result server_version =
     JObj [(''protocolVersion'', JStr server_version),
           (''serverInfo'', JObj [(''name'', JStr ''bap-server''), (''version'', JStr ''1.0.0'')]),
           (''capabilities'', JObj [(''browsers'', JList [JStr ''chromium''])])]"

definition demo_client :: client where
  "demo_client = new_client ''ws://localhost:9222'' ''bap-client-python'' ''0.2.0'' []"

text \<open>The client after \<^verbatim>\<open>connect()\<close> against a server that reports the client's own
  protocol version and acknowledges the subscription.\<close>

definition connected_client :: client where
  "connected_client =
     snd (snd (connect schema_env True
       [Text (Some (result_response 1 (initialize_result ''0.2.0''))),
        Text (Some (result_response 2 (JObj [])))]
       demo_client))"

text \<open>The connected client with one call outstanding (correlation id 3), and with an
  active page; a client that is connected but not initialized, with two calls
  outstanding; two callbacks; an error response whose \<^verbatim>\<open>data\<close> member is \<^verbatim>\<open>null\<close>.\<close>

definition calling_client :: client where
  "calling_client = snd (issue ''page/list'' (JObj []) connected_client)"

definition paged_client :: client where
  "paged_client =
     snd (snd (activate_page schema_env ''page-1'' [Text (Some (result_response 3 (JObj [])))]
       connected_client))"




definition null_data_error :: "int \<Rightarrow> json" where
  "null_data_error rid =
     JObj [(''jsonrpc'', JStr ''2.0''), (''id'', JInt rid),
           (''error'', JObj [(''code'', JInt InternalError), (''message'', JStr ''Internal error''),
                             (''data'', JNull)])]"

section \<open>Properties of the error mapper\<close>

lemma from_dict_to_dict:
  "from_dict (to_dict e) =
     create_error_from_code (code e) (message e) (retryable e) (retry_after_ms e) (details e)"
  by (simp add: from_dict_def to_dict_def bindE_def dict_get_def)

lemma opt_get_simps:
  "opt_get JNull k x = Inr x"
  "opt_get (JObj []) k x = Inr x"
  "opt_get (JObj (a # kvs)) k x = Inr (dict_get (a # kvs) k x)"
  by (simp_all add: opt_get_def)

lemma opt_get_typed:
  assumes "d = JNull \<or> isinstance_dict d"
  shows "opt_get d k x = Inr (case d of JObj kvs \<Rightarrow> if kvs = [] then x else dict_get kvs k x | v \<Rightarrow> x)"
  using assms by (cases d) (auto simp: opt_get_def)

lemmas constructor_defs =
  new_BAPParseError_def new_BAPMethodNotFoundError_def new_BAPNotInitializedError_def
  new_BAPAlreadyInitializedError_def new_BAPBrowserNotLaunchedError_def
  new_BAPPageNotFoundError_def new_BAPElementNotFoundError_def
  new_BAPElementNotVisibleError_def new_BAPElementNotEnabledError_def
  new_BAPSelectorAmbiguousError_def new_BAPNavigationError_def new_BAPTimeoutError_def
  new_BAPActionError_def new_BAPTargetClosedError_def
  new_BAPExecutionContextDestroyedError_def new_BAPContextNotFoundError_def
  new_BAPResourceLimitExceededError_def new_BAPApprovalDeniedError_def
  new_BAPApprovalTimeoutError_def new_BAPApprovalRequiredError_def
  new_BAPFrameNotFoundError_def new_BAPDomainNotAllowedError_def
  new_BAPStreamNotFoundError_def new_BAPStreamCancelledError_def

text \<open>A code without a constructor of its own takes the last \<^verbatim>\<open>return\<close>: every
  argument is kept.\<close>

lemma default_branch:
  "c \<notin> set constructor_codes \<Longrightarrow>
   create_error_from_code (JInt c) m r ra d = Inr (init_error BAPError (JInt c) m r ra d)"
  by (simp add: create_error_from_code_def bindE_def special_constructors_def
      other_constructors_def constructor_codes_def error_classes_def)

text \<open>On typed arguments the mapper returns an error, and that error has the code it
  was given.\<close>

lemma mapper_keeps_code:
  assumes "d = JNull \<or> isinstance_dict d"
  shows "\<exists>e. create_error_from_code (JInt c) m r ra d = Inr e \<and> code e = JInt c"
  by (simp add: create_error_from_code_def bindE_def special_constructors_def
      other_constructors_def error_classes_def opt_get_typed [OF assms] constructor_defs
      init_error_def ErrorCodes_defs)

text \<open>What the mapper has built, it builds again from the wire form: the second error
  has the code, the retryable flag and the details of the first.\<close>

lemma mapper_idempotent:
  assumes "d = JNull \<or> isinstance_dict d"
  shows "case create_error_from_code (JInt c) m r ra d of
           Inl x \<Rightarrow> False
         | Inr e1 \<Rightarrow>
             (case from_dict (to_dict e1) of
                Inl x \<Rightarrow> False
              | Inr e2 \<Rightarrow> code e2 = code e1 \<and> retryable e2 = retryable e1 \<and> details e2 = details e1)"
  by (simp add: from_dict_to_dict create_error_from_code_def bindE_def special_constructors_def
      other_constructors_def error_classes_def opt_get_typed [OF assms] constructor_defs
      init_error_def ErrorCodes_defs opt_get_simps dict_get_def py_or_def)

text \<open>
  C6 (as amended). For every typed error \<open>e\<close>, \<^verbatim>\<open>from_dict(e.to_dict())\<close> returns an
  error \<open>e1\<close> with the code of \<open>e\<close>. When the code of \<open>e\<close> has no constructor of its own
  in \<^verbatim>\<open>create_error_from_code\<close>, \<open>e1\<close> also has the retryable flag, the retry delay,
  the details and the message of \<open>e\<close>. In every case \<open>e1\<close> itself round-trips: mapping
  its wire form back gives an error with the code, the retryable flag and the details of
  \<open>e1\<close>.
\<close>

theorem error_round_trip:
  assumes "typed_error e"
  shows "\<exists>e1. from_dict (to_dict e) = Inr e1 \<and> code e1 = code e
           \<and> (code e \<notin> JInt ` set constructor_codes \<longrightarrow>
                retryable e1 = retryable e \<and> details e1 = details e
                \<and> retry_after_ms e1 = retry_after_ms e \<and> message e1 = message e)
           \<and> (\<exists>e2. from_dict (to_dict e1) = Inr e2 \<and> code e2 = code e1
                 \<and> retryable e2 = retryable e1 \<and> details e2 = details e1)"
proof -
  from assms obtain c where c: "code e = JInt c"
    by (cases "code e") (auto simp: typed_error_def)
  from assms have d: "details e = JNull \<or> isinstance_dict (details e)"
    by (simp add: typed_error_def)
  obtain e1 where e1:
      "create_error_from_code (JInt c) (message e) (retryable e) (retry_after_ms e) (details e) = Inr e1"
      "code e1 = JInt c"
    using mapper_keeps_code [OF d] by blast
  have rt: "from_dict (to_dict e) = Inr e1"
    by (simp add: from_dict_to_dict c e1)
  have kept: "retryable e1 = retryable e \<and> details e1 = details e
      \<and> retry_after_ms e1 = retry_after_ms e \<and> message e1 = message e"
    if "c \<notin> set constructor_codes"
    using default_branch [OF that, of "message e" "retryable e" "retry_after_ms e" "details e"] e1
    by (auto simp: init_error_def)
  have again: "\<exists>e2. from_dict (to_dict e1) = Inr e2 \<and> code e2 = code e1
      \<and> retryable e2 = retryable e1 \<and> details e2 = details e1"
    using mapper_idempotent [OF d, of c "message e" "retryable e" "retry_after_ms e"] e1
    by (auto split: sum.splits)
  from rt e1 c kept again show ?thesis by auto
qed

text \<open>The theorem at the error the client raises when it is closed: a code without a
  constructor of its own, so every attribute comes back.\<close>

theorem error_round_trip_witness:
  "typed_error client_closed
   \<and> (\<exists>e1. from_dict (to_dict client_closed) = Inr e1 \<and> code e1 = JInt (- 32000)
        \<and> retryable e1 = JBool False \<and> details e1 = JNull)"
proof -
  have t: "typed_error client_closed"
    by (simp add: typed_error_def client_closed_def init_error_def)
  have n: "code client_closed \<notin> JInt ` set constructor_codes"
    by (simp add: client_closed_def init_error_def constructor_codes_def ErrorCodes_defs)
  from error_round_trip [OF t] n have
    "\<exists>e1. from_dict (to_dict client_closed) = Inr e1 \<and> code e1 = code client_closed
        \<and> retryable e1 = retryable client_closed \<and> details e1 = details client_closed"
    by blast
  with t show ?thesis
    by (simp add: client_closed_def init_error_def ServerError_def)
qed

text \<open>
  C6 as stated fails. A \<^verbatim>\<open>BAPError\<close> with the code \<^verbatim>\<open>Timeout\<close>, not retryable and
  with details, comes back as a \<^verbatim>\<open>BAPTimeoutError\<close>: retryable, and with no details.
\<close>

theorem error_round_trip_counterexample:
  "typed_error (init_error BAPError (JInt Timeout) (JStr ''deadline passed'') (JBool False) JNull
                  (JObj [(''pageId'', JStr ''p1'')]))
   \<and> from_dict (to_dict (init_error BAPError (JInt Timeout) (JStr ''deadline passed'') (JBool False)
                  JNull (JObj [(''pageId'', JStr ''p1'')])))
      = Inr (init_error BAPTimeoutError (JInt Timeout) (JStr ''deadline passed'') (JBool True) (JInt 0)
               JNull)
   \<and> retryable (init_error BAPTimeoutError (JInt Timeout) (JStr ''deadline passed'') (JBool True)
                  (JInt 0) JNull) \<noteq> JBool False
   \<and> details (init_error BAPTimeoutError (JInt Timeout) (JStr ''deadline passed'') (JBool True)
                (JInt 0) JNull) \<noteq> JObj [(''pageId'', JStr ''p1'')]"
  by (simp add: typed_error_def from_dict_to_dict create_error_from_code_def bindE_def
      special_constructors_def error_classes_def opt_get_simps dict_get_def
      new_BAPTimeoutError_def init_error_def ErrorCodes_defs)

section \<open>What each operation leaves unchanged\<close>

lemma same_session_refl: "same_session s s"
  by (simp add: same_session_def)

lemma same_session_trans: "same_session a b \<Longrightarrow> same_session b c \<Longrightarrow> same_session a c"
  by (simp add: same_session_def)

lemma log_only_refl: "log_only s s"
  by (simp add: log_only_def same_session_def)

lemma log_only_trans: "log_only a b \<Longrightarrow> log_only b c \<Longrightarrow> log_only a c"
  by (simp add: log_only_def same_session_def)

lemma run_handlers_eq:
  "run_handlers mk hs a s =
     s\<lparr>diagnostics := diagnostics s @ List.map_filter (\<lambda>h. map_option mk (snd h a)) hs,
       calls := calls s @ map (\<lambda>h. (fst h, a)) hs\<rparr>"
proof (induction hs arbitrary: s)
  case Nil
  show ?case by (simp add: List.map_filter_simps)
next
  case (Cons h hs)
  show ?case
    by (cases "snd h a") (simp_all add: Cons.IH List.map_filter_simps Let_def)
qed

lemma log_only_run_handlers: "log_only s (run_handlers mk hs a s)"
  by (simp add: run_handlers_eq log_only_def same_session_def)

lemma log_only_handle_close: "log_only s (handle_close s)"
  by (simp add: handle_close_def log_only_run_handlers)

lemma log_only_handle_error: "log_only s (handle_error e s)"
  by (simp add: handle_error_def log_only_run_handlers)

lemma log_only_dispatch: "log_only s (dispatch cbs s)"
proof (induction cbs arbitrary: s)
  case Nil
  show ?case by (simp add: log_only_refl)
next
  case (Cons c cbs)
  show ?case
  proof (cases c)
    case (CbError e)
    with Cons.IH [of "handle_error e s"] log_only_handle_error [of s e]
    show ?thesis by (auto intro: log_only_trans)
  next
    case CbClose
    with Cons.IH [of "handle_close s"] log_only_handle_close [of s]
    show ?thesis by (auto intro: log_only_trans)
  qed (use Cons.IH [of s] in simp_all)
qed

text \<open>A response touches the table, the futures, the timers and the log; it calls no
  handler.\<close>

lemma cancel_timer_frame:
  "same_session s (cancel_timer t s) \<and> transport (cancel_timer t s) = transport s
   \<and> calls (cancel_timer t s) = calls s \<and> diagnostics (cancel_timer t s) = diagnostics s
   \<and> futures (cancel_timer t s) = futures s
   \<and> pending_requests (cancel_timer t s) = pending_requests s"
  by (simp add: cancel_timer_def same_session_def split: option.splits prod.splits)

lemma handle_response_frame:
  assumes "handle_response data s = (r, s')"
  shows "same_session s s' \<and> transport s' = transport s \<and> calls s' = calls s"
  using assms cancel_timer_frame
  by (auto simp: handle_response_def unknown_request_def same_session_def settle_def Let_def
      split: json.splits sum.splits option.splits prod.splits if_splits)


lemma handle_notification_frame:
  assumes "handle_notification E data s = (r, s')"
  shows "log_only s s'"
  using assms log_only_run_handlers log_only_refl
  by (auto simp: handle_notification_def validated_dispatch_def Let_def
      split: sum.splits option.splits json.splits if_splits)

lemma handle_message_frame:
  assumes "handle_message E parsed s = (r, s')"
  shows "same_session s s' \<and> transport s' = transport s"
proof (cases parsed)
  case None
  with assms show ?thesis by (auto simp: handle_message_def same_session_def)
next
  case (Some data)
  show ?thesis
  proof (cases "py_in ''id'' data")
    case (Inl e)
    with assms Some show ?thesis by (simp add: handle_message_def same_session_def)
  next
    case (Inr has_id)
    show ?thesis
    proof (cases has_id)
      case True
      with assms Some Inr handle_response_frame [of data s r s'] show ?thesis
        by (simp add: handle_message_def)
    next
      case False
      with assms Some Inr handle_notification_frame [of E data s r s'] show ?thesis
        by (auto simp: handle_message_def log_only_def same_session_def
            split: sum.splits bool.splits)
    qed
  qed
qed

lemma on_timeout_frame:
  "same_session s (on_timeout rid m s) \<and> transport (on_timeout rid m s) = transport s
   \<and> calls (on_timeout rid m s) = calls s \<and> diagnostics (on_timeout rid m s) = diagnostics s
   \<and> timers (on_timeout rid m s) = timers s"
  by (simp add: on_timeout_def same_session_def settle_def Let_def split: option.splits prod.splits)

lemma loop_exit_frame:
  "same_session s (loop_exit E s) \<and> pending_requests (loop_exit E s) = pending_requests s
   \<and> futures (loop_exit E s) = futures s \<and> timers (loop_exit E s) = timers s"
proof -
  obtain tr t' where r: "receive_loop_finally (reconnect_ok E) (transport s) = (tr, t')"
    by (cases "receive_loop_finally (reconnect_ok E) (transport s)")
  from log_only_dispatch [of "s\<lparr>transport := t'\<rparr>" tr] show ?thesis
    by (simp add: loop_exit_def r log_only_def same_session_def)
qed

lemma step_frame: "same_session s (step E ev s)"
proof (cases ev)
  case (Text parsed)
  obtain r s1 where h: "handle_message E parsed s = (r, s1)"
    by (cases "handle_message E parsed s")
  from handle_message_frame [OF h] have a: "same_session s s1" by simp
  have b: "same_session s1 (handle_error e s1)" for e
    using log_only_handle_error [of s1 e] by (simp add: log_only_def)
  have c: "same_session s1 (loop_exit E (handle_error e s1))" for e
    using b [of e] loop_exit_frame [of "handle_error e s1" E] by (auto intro: same_session_trans)
  show ?thesis
    using Text h a c
    by (cases r) (auto simp: step_def same_session_refl intro: same_session_trans)
next
  case WsError
  have "same_session s (loop_exit E (handle_error WebSocketError s))"
    using log_only_handle_error [of s WebSocketError] loop_exit_frame [of "handle_error WebSocketError s" E]
    by (auto simp: log_only_def intro: same_session_trans)
  with WsError show ?thesis by (simp add: step_def same_session_refl)
next
  case WsEnd
  have "same_session s (loop_exit E (s\<lparr>transport := (transport s)\<lparr>ws := WsClosed\<rparr>\<rparr>))"
    using loop_exit_frame [of "s\<lparr>transport := (transport s)\<lparr>ws := WsClosed\<rparr>\<rparr>" E]
    by (simp add: same_session_def)
  with WsEnd show ?thesis by (simp add: step_def same_session_refl)
next
  case (TimerExpired t)
  show ?thesis
    using on_timeout_frame [of "s\<lparr>timers := (timers s)(t \<mapsto> (Fired, m))\<rparr>" t m for m]
    by (auto simp: TimerExpired step_def same_session_def
        split: option.splits prod.splits timer_state.splits)
next
  case (TaskCancelled f)
  then show ?thesis by (simp add: step_def same_session_def settle_def)
qed

lemma await_future_frame:
  "await_future E f evs s = (st, rest, s') \<Longrightarrow> same_session s s'"
proof (induction evs arbitrary: s)
  case Nil
  then show ?case by (simp add: same_session_refl)
next
  case (Cons ev evs)
  show ?case
  proof (cases "future_done s f")
    case True
    with Cons.prems show ?thesis by (simp add: same_session_refl)
  next
    case False
    with Cons.prems have "await_future E f evs (step E ev s) = (st, rest, s')" by simp
    from Cons.IH [OF this] step_frame [of s E ev] show ?thesis
      by (rule same_session_trans [rotated])
  qed
qed

lemma request_cleanup_frame:
  "same_session s (request_cleanup rid s) \<and> transport (request_cleanup rid s) = transport s
   \<and> futures (request_cleanup rid s) = futures s \<and> calls (request_cleanup rid s) = calls s"
  using cancel_timer_frame
  by (auto simp: request_cleanup_def same_session_def split: option.splits prod.splits)

lemma issue_id:
  assumes "issue method params s = (rid, s')"
  shows "rid = request_id s + 1 \<and> request_id s' = rid"
  using assms request_cleanup_frame
  by (auto simp: issue_def request_begin_def Let_def same_session_def split: sum.splits)

lemma close_teardown_request_id: "request_id (close_teardown s) = request_id s"
proof -
  have f: "request_id (fold cancel_pending xs s0) = request_id s0" for xs s0
  proof (induction xs arbitrary: s0)
    case Nil
    show ?case by simp
  next
    case (Cons x xs)
    have "request_id (cancel_pending x s0) = request_id s0"
      using cancel_timer_frame
      by (auto simp: cancel_pending_def settle_def Let_def same_session_def split: prod.splits)
    with Cons.IH [of "cancel_pending x s0"] show ?case by simp
  qed
  obtain cbs t' where c: "transport_close (transport s) = (cbs, t')"
    by (cases "transport_close (transport s)")
  from log_only_dispatch [of "s\<lparr>transport := t'\<rparr>" cbs] show ?thesis
    by (simp add: close_teardown_def c Let_def f log_only_def same_session_def)
qed


section \<open>Correlation ids\<close>



section \<open>Reconnection\<close>

text \<open>When no attempt succeeds, the loop makes one attempt for every value of the
  counter up to the ceiling and then raises.\<close>

lemma attempt_loop_all_fail:
  assumes "\<not> is_closing t" and "\<And>n. \<not> ok n"
  shows "attempt_loop ok t =
     (Some ReconnectFailed,
      concat (map (failed_attempt t) [reconnect_attempts t + 1 .. max_reconnect_attempts t]),
      if reconnect_attempts t < max_reconnect_attempts t
      then t\<lparr>reconnect_attempts := max_reconnect_attempts t, session_open := True\<rparr>
      else t)"
  using assms(1)
proof (induction "nat (max_reconnect_attempts t - reconnect_attempts t)" arbitrary: t rule: less_induct)
  case less
  show ?case
  proof (cases "reconnect_attempts t < max_reconnect_attempts t")
    case False
    then show ?thesis by (simp add: attempt_loop.simps)
  next
    case True
    let ?t2 = "t\<lparr>reconnect_attempts := reconnect_attempts t + 1, session_open := True\<rparr>"
    have t2: "transport_connect False (t\<lparr>reconnect_attempts := reconnect_attempts t + 1\<rparr>)
       = (Some ConnectFailed, [WsConnect False, CbError ConnectFailed], ?t2)"
      using less.prems by (simp add: transport_connect_def Let_def)
    have ih: "attempt_loop ok ?t2 = (Some ReconnectFailed,
      concat (map (failed_attempt ?t2) [reconnect_attempts ?t2 + 1 .. max_reconnect_attempts ?t2]),
      if reconnect_attempts ?t2 < max_reconnect_attempts ?t2
      then ?t2\<lparr>reconnect_attempts := max_reconnect_attempts ?t2, session_open := True\<rparr>
      else ?t2)"
      using less.prems True by (intro less.hyps) simp_all
    have fa: "failed_attempt ?t2 = failed_attempt t"
      by (simp add: failed_attempt_def fun_eq_iff)
    have up: "[reconnect_attempts t + 1 .. max_reconnect_attempts t]
        = (reconnect_attempts t + 1) # [reconnect_attempts t + 1 + 1 .. max_reconnect_attempts t]"
      using True by (simp add: upto_rec1)
    show ?thesis
      using True less.prems assms(2)
      apply (subst attempt_loop.simps)
      apply (simp add: Let_def t2 ih fa up)
      apply (simp add: failed_attempt_def)
      done
  qed
qed

text \<open>The same for the \<^verbatim>\<open>finally\<close> block of the receive loop, for any ceiling and
  any base delay: attempt \<open>n\<close> is preceded by a sleep of the base delay times
  \<open>2 ^ (n - 1)\<close>, and the close callback follows the last attempt.\<close>

lemma receive_loop_finally_all_fail:
  assumes "auto_reconnect t" "\<not> is_closing t" "\<not> is_reconnecting t" and "\<And>n. \<not> ok n"
  shows "receive_loop_finally ok t =
     (concat (map (failed_attempt t) [reconnect_attempts t + 1 .. max_reconnect_attempts t]) @ [CbClose],
      (if reconnect_attempts t < max_reconnect_attempts t
       then t\<lparr>reconnect_attempts := max_reconnect_attempts t, session_open := True\<rparr>
       else t)\<lparr>receive_task := Finished\<rparr>)"
proof -
  let ?t1 = "t\<lparr>is_reconnecting := True\<rparr>"
  have fa: "failed_attempt ?t1 = failed_attempt t"
    by (simp add: failed_attempt_def fun_eq_iff)
  have "\<not> is_closing ?t1" using assms(2) by simp
  from attempt_loop_all_fail [OF this assms(4)] show ?thesis
    using assms(1-3) by (simp add: receive_loop_finally_def attempt_reconnect_def fa)
qed

text \<open>
  C7. A transport with auto-reconnect on, a ceiling of 3 attempts and a base delay of 1
  second, whose receive loop ends while no close is under way and whose every reconnection
  attempt fails: the \<^verbatim>\<open>finally\<close> block announces attempt 1 of 3 and sleeps 1 second,
  announces attempt 2 and sleeps 2 seconds, announces attempt 3 and sleeps 4 seconds, each
  sleep followed by one failed connection attempt, and after the third it calls the close
  callback. Nothing follows: the receive task is over and the socket is as it was.
\<close>

theorem reconnect_three_attempts:
  assumes "auto_reconnect t" and "\<not> is_closing t" and "\<not> is_reconnecting t"
    and "reconnect_attempts t = 0" and "max_reconnect_attempts t = 3"
    and "reconnect_delay t = 1" and "\<And>n. \<not> ok n"
  shows "receive_loop_finally ok t =
     ([CbReconnecting 1 3, Sleep 1, WsConnect False, CbError ConnectFailed,
       CbReconnecting 2 3, Sleep 2, WsConnect False, CbError ConnectFailed,
       CbReconnecting 3 3, Sleep 4, WsConnect False, CbError ConnectFailed,
       CbClose],
      t\<lparr>reconnect_attempts := 3, session_open := True, receive_task := Finished\<rparr>)"
  using assms(4-6)
  by (simp add: receive_loop_finally_all_fail [OF assms(1-3) assms(7)] failed_attempt_def
      pow2_def upto_rec1)

text \<open>The theorem at a transport made with these settings and connected once.\<close>

theorem reconnect_three_attempts_witness:
  "receive_loop_finally (\<lambda>n. False)
     (snd (snd (transport_connect True (new_transport ''ws://localhost:9222'' 3 1 True))))
   = ([CbReconnecting 1 3, Sleep 1, WsConnect False, CbError ConnectFailed,
       CbReconnecting 2 3, Sleep 2, WsConnect False, CbError ConnectFailed,
       CbReconnecting 3 3, Sleep 4, WsConnect False, CbError ConnectFailed,
       CbClose],
      (new_transport ''ws://localhost:9222'' 3 1 True)
        \<lparr>session_open := True, ws := WsOpen, reconnect_attempts := 3, receive_task := Finished\<rparr>)"
  using reconnect_three_attempts
    [of "snd (snd (transport_connect True (new_transport ''ws://localhost:9222'' 3 1 True)))"
        "\<lambda>n. False"]
  by (simp add: transport_connect_def new_transport_def Let_def)

section \<open>Classification and routing of inbound messages\<close>

lemma map_of_in_keys: "map_of msg k = Some v \<Longrightarrow> k \<in> fst ` set msg"
  by (metis domI dom_map_of_conv_image_fst)






section \<open>Timeouts\<close>

lemma map_of_pop: "map_of (pop k tab) k = None"
  by (induction tab) (auto simp: pop_def)

lemma map_of_dict_set: "map_of (dict_set k v tab) k = Some v"
proof (cases "k \<in> set (map fst tab)")
  case False
  then show ?thesis
    by (simp add: dict_set_def map_of_eq_None_iff [THEN iffD2] map_add_Some_iff)
next
  case True
  have "map_of (map (\<lambda>kv. if fst kv = k then (k, v) else kv) tab) k = Some v"
    using True by (induction tab) auto
  with True show ?thesis by (simp add: dict_set_def)
qed

text \<open>The state after the timer of an outstanding call has expired.\<close>

lemma timer_expiry_state:
  assumes "map_of (pending_requests s) rid = Some (f, t)" and "futures s f = Some FPending"
    and "timers s rid = Some (Armed, m)"
  shows "step E (TimerExpired rid) s
     = s\<lparr>timers := (timers s)(rid \<mapsto> (Fired, m)),
         pending_requests := pop rid (pending_requests s),
         futures := (futures s)(f \<mapsto> FException (BAP (timeout_error m)))\<rparr>"
  using assms by (simp add: step_def on_timeout_def future_done_def settle_def Let_def)

text \<open>A response for an id that is not in the table: a warning is logged, nothing else
  changes and nothing is raised.\<close>

lemma unknown_response:
  assumes "map_of msg ''id'' = Some (JInt n)" and "map_of (pending_requests s) n = None"
  shows "handle_message E (Some (JObj msg)) s
      = (None, s\<lparr>diagnostics := diagnostics s @ [UnknownRequest (JInt n)]\<rparr>)"
  using assms map_of_in_keys [OF assms(1)]
  by (simp add: handle_message_def handle_response_def dict_get_def unknown_request_def)

lemma await_future_done:
  assumes "futures s f = Some st" and "st \<noteq> FPending"
  shows "await_future E f evs s = (st, evs, s)"
  using assms by (cases evs) (simp_all add: future_done_def)

text \<open>A call on an open socket whose timer is the first thing to happen: the caller gets
  the timeout error.\<close>

lemma request_times_out:
  assumes "ws (transport s) = WsOpen"
  shows "fst (request E m p (TimerExpired (request_id s + 1) # rest) s) = Raise (BAP (timeout_error m))
     \<and> fst (snd (request E m p (TimerExpired (request_id s + 1) # rest) s)) = rest"
proof -
  let ?rid = "request_id s + 1"
  let ?req = "create_request (JInt ?rid) m p"
  let ?s1 = "s\<lparr>request_id := ?rid,
            futures := (futures s)(?rid \<mapsto> FPending),
            timers := (timers s)(?rid \<mapsto> (Armed, m)),
            pending_requests := dict_set ?rid (?rid, ?rid) (pending_requests s)\<rparr>"
  let ?t' = "(transport s)\<lparr>sent := sent (transport s) @ [?req]\<rparr>"
  let ?s2 = "?s1\<lparr>transport := ?t'\<rparr>"
  have b: "request_begin m p s = (?rid, ?req, ?s1)"
    by (simp add: request_begin_def Let_def)
  have send: "transport_send ?req (transport s) = Inr ?t'"
    using assms by (simp add: transport_send_def)
  have p: "map_of (pending_requests ?s2) ?rid = Some (?rid, ?rid)"
    by (simp add: map_of_dict_set)
  have f: "futures ?s2 ?rid = Some FPending"
    by simp
  have t: "timers ?s2 ?rid = Some (Armed, m)"
    by simp
  have d: "futures (step E (TimerExpired ?rid) ?s2) ?rid = Some (FException (BAP (timeout_error m)))"
    by (simp add: timer_expiry_state [OF p f t])
  have a: "await_future E ?rid (TimerExpired ?rid # rest) ?s2
      = (FException (BAP (timeout_error m)), rest, step E (TimerExpired ?rid) ?s2)"
    using f await_future_done [OF d, of E rest] by (simp add: future_done_def)
  show ?thesis
    by (simp add: request_def b send a del: await_future.simps)
qed

text \<open>
  C3. Take a call that is still outstanding when its timer expires (its entry is in the
  table, its future is not done, its timer is armed: no matching response has come in
  time). The expiry settles the future with a \<^verbatim>\<open>BAPError\<close> whose code is
  \<^verbatim>\<open>Timeout\<close>, whose retryable flag is true and whose message is
  \<^verbatim>\<open>Request timeout: \<close> followed by the method, and the entry leaves the table. A
  response with that correlation id that arrives afterwards is discarded: it raises
  nothing and changes nothing but the log, which gets the warning about an unknown
  request. Seen from the caller: a call on an open socket whose timer is the first thing
  to happen raises that timeout error.
\<close>

theorem timeout_settles:
  assumes "map_of (pending_requests s) rid = Some (f, t)" and "futures s f = Some FPending"
    and "timers s rid = Some (Armed, m)"
  shows "futures (step E (TimerExpired rid) s) f = Some (FException (BAP (timeout_error m)))
     \<and> code (timeout_error m) = JInt Timeout
     \<and> retryable (timeout_error m) = JBool True
     \<and> message (timeout_error m) = JStr (''Request timeout: '' @ m)
     \<and> map_of (pending_requests (step E (TimerExpired rid) s)) rid = None
     \<and> (\<forall>msg. map_of msg ''id'' = Some (JInt rid) \<longrightarrow>
          handle_message E (Some (JObj msg)) (step E (TimerExpired rid) s)
          = (None, (step E (TimerExpired rid) s)
               \<lparr>diagnostics := diagnostics (step E (TimerExpired rid) s) @ [UnknownRequest (JInt rid)]\<rparr>))
     \<and> (ws (transport c) = WsOpen \<longrightarrow>
          fst (request E method params (TimerExpired (request_id c + 1) # rest) c)
          = Raise (BAP (timeout_error method)))"
proof -
  let ?s1 = "step E (TimerExpired rid) s"
  note s1 = timer_expiry_state [OF assms, of E]
  have gone: "map_of (pending_requests ?s1) rid = None"
    by (simp add: s1 map_of_pop)
  have late: "handle_message E (Some (JObj msg)) ?s1
      = (None, ?s1\<lparr>diagnostics := diagnostics ?s1 @ [UnknownRequest (JInt rid)]\<rparr>)"
    if "map_of msg ''id'' = Some (JInt rid)" for msg
    using unknown_response [OF that gone] .
  have caller: "fst (request E method params (TimerExpired (request_id c + 1) # rest) c)
      = Raise (BAP (timeout_error method))" if "ws (transport c) = WsOpen"
    using request_times_out [OF that] by simp
  have settled: "futures ?s1 f = Some (FException (BAP (timeout_error m)))"
    by (simp add: s1)
  show ?thesis
    using gone late caller settled by (simp add: timeout_error_def init_error_def)
qed

text \<open>The theorem at the connected client with the call to \<^verbatim>\<open>page/list\<close> outstanding
  under correlation id 3.\<close>

theorem timeout_settles_witness:
  "map_of (pending_requests calling_client) 3 = Some (3, 3)
   \<and> futures calling_client 3 = Some FPending
   \<and> timers calling_client 3 = Some (Armed, ''page/list'')
   \<and> futures (step schema_env (TimerExpired 3) calling_client) 3
       = Some (FException (BAP (timeout_error ''page/list'')))
   \<and> retryable (timeout_error ''page/list'') = JBool True
   \<and> message (timeout_error ''page/list'') = JStr ''Request timeout: page/list''
   \<and> map_of (pending_requests (step schema_env (TimerExpired 3) calling_client)) 3 = None
   \<and> handle_message schema_env (Some (result_response 3 (JObj [])))
        (step schema_env (TimerExpired 3) calling_client)
      = (None, (step schema_env (TimerExpired 3) calling_client)
           \<lparr>diagnostics := diagnostics (step schema_env (TimerExpired 3) calling_client)
                            @ [UnknownRequest (JInt 3)]\<rparr>)"
proof -
  have h1: "map_of (pending_requests calling_client) 3 = Some (3, 3)" by code_simp
  have h2: "futures calling_client 3 = Some FPending" by code_simp
  have h3: "timers calling_client 3 = Some (Armed, ''page/list'')" by code_simp
  have m: "map_of [(''jsonrpc'', JStr ''2.0''), (''id'', JInt 3), (''result'', JObj [])] ''id'' = Some (JInt 3)"
    by simp
  from timeout_settles [OF h1 h2 h3, of schema_env] m h1 h2 h3 show ?thesis
    by (simp add: result_response_def)
qed

section \<open>What no event does to the transport\<close>









text \<open>A call changes the session in its correlation id only, and on an open socket it
  adds its request to what was sent.\<close>

lemma request_frame:
  assumes "request E method params evs s = (r, rest, s')"
  shows "same_session (s\<lparr>request_id := request_id s + 1\<rparr>) s'"
proof -
  let ?s1 = "snd (snd (request_begin method params s))"
  have b: "same_session (s\<lparr>request_id := request_id s + 1\<rparr>) ?s1"
    by (simp add: request_begin_def Let_def same_session_def)
  have c: "same_session x (request_cleanup rid x)" for rid x
    using request_cleanup_frame [of x rid] by simp
  show ?thesis
  proof (cases "transport_send (fst (snd (request_begin method params s))) (transport ?s1)")
    case (Inl e)
    with assms have "s' = request_cleanup (request_id s + 1) ?s1"
      by (auto simp: request_def request_begin_def Let_def split: prod.splits)
    with b c show ?thesis by (auto intro: same_session_trans)
  next
    case (Inr t')
    obtain st rest' s2 where a: "await_future E (request_id s + 1) evs (?s1\<lparr>transport := t'\<rparr>) = (st, rest', s2)"
      by (cases "await_future E (request_id s + 1) evs (?s1\<lparr>transport := t'\<rparr>)")
    from await_future_frame [OF a] b have d: "same_session (s\<lparr>request_id := request_id s + 1\<rparr>) s2"
      by (simp add: same_session_def)
    from assms Inr a have "s' = s2 \<or> s' = request_cleanup (request_id s + 1) s2"
      by (auto simp: request_def request_begin_def Let_def split: prod.splits future_state.splits if_splits)
    with d c show ?thesis by (auto intro: same_session_trans)
  qed
qed


section \<open>Closing\<close>

lemma cancel_pending_frame:
  "same_session s (cancel_pending x s) \<and> transport (cancel_pending x s) = transport s
   \<and> pending_requests (cancel_pending x s) = pending_requests s
   \<and> calls (cancel_pending x s) = calls s \<and> diagnostics (cancel_pending x s) = diagnostics s"
  using cancel_timer_frame
  by (auto simp: cancel_pending_def settle_def Let_def same_session_def split: prod.splits)

lemma fold_cancel_pending_frame:
  "same_session s (fold cancel_pending xs s) \<and> transport (fold cancel_pending xs s) = transport s"
proof (induction xs arbitrary: s)
  case Nil
  show ?case by (simp add: same_session_refl)
next
  case (Cons x xs)
  from Cons.IH [of "cancel_pending x s"] cancel_pending_frame [of s x] show ?case
    by (auto intro: same_session_trans)
qed






lemma close_teardown_facts:
  "pending_requests (close_teardown s) = [] \<and> \<not> initialized (close_teardown s)
   \<and> server_capabilities (close_teardown s) = JNull
   \<and> active_page (close_teardown s) = active_page s
   \<and> request_id (close_teardown s) = request_id s
   \<and> ws (transport (close_teardown s)) = NoWs
   \<and> \<not> session_open (transport (close_teardown s))"
proof -
  obtain cbs t' where c: "transport_close (transport s) = (cbs, t')"
    by (cases "transport_close (transport s)")
  then have t': "ws t' = NoWs \<and> \<not> session_open t'"
    by (auto simp: transport_close_def Let_def)
  let ?s1 = "dispatch cbs (s\<lparr>transport := t'\<rparr>)"
  let ?s2 = "?s1\<lparr>initialized := False, server_capabilities := JNull\<rparr>"
  have l: "log_only (s\<lparr>transport := t'\<rparr>) ?s1" by (rule log_only_dispatch)
  have f: "same_session ?s2 (fold cancel_pending (pending_requests ?s2) ?s2)
      \<and> transport (fold cancel_pending (pending_requests ?s2) ?s2) = transport ?s2"
    by (rule fold_cancel_pending_frame)
  have e: "close_teardown s = (fold cancel_pending (pending_requests ?s2) ?s2)\<lparr>pending_requests := []\<rparr>"
    by (simp add: close_teardown_def c Let_def)
  show ?thesis
    using l f t' by (simp add: e log_only_def same_session_def)
qed


lemma close_shutdown_frame:
  assumes "close_shutdown E evs s = (r, rest, s1)"
  shows "active_page s1 = active_page s \<and> (\<not> initialized s \<longrightarrow> s1 = s \<and> rest = evs \<and> r = Return ())"
proof (cases "initialized s")
  case False
  with assms show ?thesis by (simp add: close_shutdown_def)
next
  case True
  obtain r0 rest0 s0 where q: "request E ''shutdown'' (JObj [(''saveState'', JBool False), (''closePages'', JBool True)]) evs s = (r0, rest0, s0)"
    by (cases "request E ''shutdown'' (JObj [(''saveState'', JBool False), (''closePages'', JBool True)]) evs s") 
  from assms True q have "s1 = s0"
    by (cases r0) (auto simp: close_shutdown_def)
  with request_frame [OF q] True show ?thesis by (simp add: same_session_def)
qed




text \<open>
  C8. \<^verbatim>\<open>close()\<close> resets \<^verbatim>\<open>_initialized\<close> and \<^verbatim>\<open>_server_capabilities\<close> and
  leaves \<^verbatim>\<open>_active_page\<close> as it was: whenever it returns, the stored capabilities are
  \<^verbatim>\<open>None\<close>, the client is not initialized, and the active page is the one it had
  before the call.
\<close>

theorem close_keeps_active_page:
  assumes "close E evs s = (Return u, rest, s')"
  shows "server_capabilities s' = JNull \<and> \<not> initialized s' \<and> active_page s' = active_page s"
proof -
  obtain r1 rest1 s1 where sh: "close_shutdown E evs s = (r1, rest1, s1)"
    by (cases "close_shutdown E evs s")
  with assms have r: "s' = close_teardown s1"
    by (cases r1) (simp_all add: close_def)
  from close_shutdown_frame [OF sh] close_teardown_facts [of s1] r show ?thesis by simp
qed

text \<open>The theorem at the connected client after \<^verbatim>\<open>activate_page("page-1")\<close>: the
  active page is still \<^verbatim>\<open>page-1\<close> when \<^verbatim>\<open>close()\<close> has returned.\<close>

theorem close_keeps_active_page_witness:
  "initialized paged_client
   \<and> active_page paged_client = JStr ''page-1''
   \<and> fst (close schema_env [Text (Some (result_response 4 (JObj [])))] paged_client) = Return ()
   \<and> server_capabilities (snd (snd (close schema_env [Text (Some (result_response 4 (JObj [])))]
        paged_client))) = JNull
   \<and> active_page (snd (snd (close schema_env [Text (Some (result_response 4 (JObj [])))]
        paged_client))) = JStr ''page-1''"
proof -
  let ?c = "close schema_env [Text (Some (result_response 4 (JObj [])))] paged_client"
  have i: "initialized paged_client" by code_simp
  have a: "active_page paged_client = JStr ''page-1''" by code_simp
  have c1: "fst ?c = Return ()" by code_simp
  have c: "?c = (Return (), fst (snd ?c), snd (snd ?c))"
    using c1 by (metis prod.collapse)
  from close_keeps_active_page [OF c] i a c1 show ?thesis by simp
qed

section \<open>Connecting\<close>

lemma client_major: "major BAP_VERSION = Some 0"
  by code_simp





section \<open>Settlement of calls\<close>

text \<open>A future that is done is never written again, and no future appears but the one a
  new call creates.\<close>

lemma settled_stay_refl: "settled_stay s s"
  by (simp add: settled_stay_def)

lemma settled_stay_trans: "settled_stay a b \<Longrightarrow> settled_stay b c \<Longrightarrow> settled_stay a c"
  by (simp add: settled_stay_def)

lemma settled_stay_same: "futures s' = futures s \<Longrightarrow> settled_stay s s'"
  by (simp add: settled_stay_def)

lemma settled_stay_settle:
  "\<not> future_done s f \<Longrightarrow> futures s0 = futures s \<Longrightarrow> settled_stay s0 (settle f v s)"
  by (auto simp: settled_stay_def settle_def future_done_def)

lemma handle_response_settled:
  assumes "handle_response data s = (r, s')"
  shows "settled_stay s s'"
proof -
  have c: "futures (cancel_timer t x) = futures x" for t x
    using cancel_timer_frame [of x t] by simp
  show ?thesis
    using assms
    by (auto simp: handle_response_def unknown_request_def Let_def c settled_stay_def
        settle_def future_done_def
        split: json.splits sum.splits option.splits prod.splits if_splits)
qed

lemma handle_message_settled:
  assumes "handle_message E parsed s = (r, s')"
  shows "settled_stay s s'"
  using assms handle_response_settled handle_notification_frame
  by (auto simp: handle_message_def log_only_def intro: settled_stay_same
      split: option.splits sum.splits bool.splits)

lemma on_timeout_settled: "settled_stay s (on_timeout rid m s)"
  by (auto simp: on_timeout_def Let_def settled_stay_def settle_def future_done_def
      split: option.splits prod.splits)

lemma step_settled: "settled_stay s (step E ev s)"
proof (cases ev)
  case (Text parsed)
  obtain r s1 where h: "handle_message E parsed s = (r, s1)"
    by (cases "handle_message E parsed s")
  have "futures (loop_exit E (handle_error e s1)) = futures s1" for e
    using loop_exit_frame [of "handle_error e s1" E] log_only_handle_error [of s1 e]
    by (simp add: log_only_def)
  then have "settled_stay s (loop_exit E (handle_error e s1))" for e
    using handle_message_settled [OF h] by (simp add: settled_stay_def)
  with Text h handle_message_settled [OF h] show ?thesis
    by (cases r) (auto simp: step_def settled_stay_refl)
next
  case WsError
  have "futures (loop_exit E (handle_error WebSocketError s)) = futures s"
    using loop_exit_frame [of "handle_error WebSocketError s" E] log_only_handle_error [of s WebSocketError]
    by (simp add: log_only_def)
  with WsError show ?thesis by (simp add: step_def settled_stay_same)
next
  case WsEnd
  have "futures (loop_exit E (s\<lparr>transport := (transport s)\<lparr>ws := WsClosed\<rparr>\<rparr>)) = futures s"
    using loop_exit_frame [of "s\<lparr>transport := (transport s)\<lparr>ws := WsClosed\<rparr>\<rparr>" E] by simp
  with WsEnd show ?thesis by (simp add: step_def settled_stay_same)
next
  case (TimerExpired t)
  have "settled_stay s (on_timeout t m (s\<lparr>timers := (timers s)(t \<mapsto> (Fired, m))\<rparr>))" for m
    using on_timeout_settled [of "s\<lparr>timers := (timers s)(t \<mapsto> (Fired, m))\<rparr>" t m]
    by (simp add: settled_stay_def)
  then show ?thesis
    by (auto simp: TimerExpired step_def settled_stay_refl
        split: option.splits prod.splits timer_state.splits)
next
  case (TaskCancelled f)
  then show ?thesis
    by (auto simp: step_def settled_stay_def settle_def)
qed

lemma close_teardown_settled: "settled_stay s (close_teardown s)"
proof -
  have one: "settled_stay x (cancel_pending e x)" for e x
  proof -
    have c: "futures (cancel_timer t x) = futures x" for t
      using cancel_timer_frame [of x t] by simp
    show ?thesis
      by (auto simp: cancel_pending_def Let_def c settled_stay_def settle_def future_done_def
          split: prod.splits)
  qed
  have f: "settled_stay x (fold cancel_pending xs x)" for xs x
  proof (induction xs arbitrary: x)
    case Nil
    show ?case by (simp add: settled_stay_refl)
  next
    case (Cons e xs)
    from one [of x e] Cons.IH [of "cancel_pending e x"] show ?case
      by (auto intro: settled_stay_trans)
  qed
  obtain cbs t' where c: "transport_close (transport s) = (cbs, t')"
    by (cases "transport_close (transport s)")
  let ?s2 = "(dispatch cbs (s\<lparr>transport := t'\<rparr>))\<lparr>initialized := False, server_capabilities := JNull\<rparr>"
  have "futures ?s2 = futures s"
    using log_only_dispatch [of "s\<lparr>transport := t'\<rparr>" cbs] by (simp add: log_only_def)
  with f [of ?s2 "pending_requests ?s2"] show ?thesis
    by (simp add: close_teardown_def c Let_def settled_stay_def)
qed

lemma issue_settled:
  assumes "fresh_above s" and "issue method params s = (rid, s')"
  shows "fresh_above s' \<and> (\<forall>f v. futures s f = Some v \<longrightarrow> futures s' f = Some v)"
proof -
  have f: "futures s' = (futures s)(request_id s + 1 \<mapsto> FPending)"
    using assms(2) request_cleanup_frame
    by (auto simp: issue_def request_begin_def Let_def split: sum.splits)
  from issue_id [OF assms(2)] have r: "request_id s' = request_id s + 1" by simp
  from assms(1) have "futures s (request_id s + 1) = None"
    by (simp add: fresh_above_def)
  with assms(1) f r show ?thesis
    by (auto simp: fresh_above_def)
qed

lemma perform_settled:
  assumes "fresh_above s" and "futures s f = Some v" and "v \<noteq> FPending"
  shows "futures (snd (perform E acts s)) f = Some v"
  using assms
proof (induction acts arbitrary: s)
  case Nil
  then show ?case by simp
next
  case (Cons a acts)
  show ?case
  proof (cases a)
    case (Issue mth ps)
    obtain rid s1 where i: "issue mth ps s = (rid, s1)"
      by (cases "issue mth ps s")
    from issue_settled [OF Cons.prems(1) i] Cons.prems have "fresh_above s1" "futures s1 f = Some v"
      by simp_all
    from Cons.IH [OF this Cons.prems(3)] Issue i show ?thesis
      by (cases "perform E acts s1") simp
  next
    case (Happen ev)
    have st: "settled_stay s (step E ev s)" by (rule step_settled)
    have "fresh_above (step E ev s)"
      using st step_frame [of s E ev] Cons.prems(1)
      by (simp add: fresh_above_def settled_stay_def same_session_def)
    moreover have "futures (step E ev s) f = Some v"
      using st Cons.prems by (simp add: settled_stay_def)
    ultimately show ?thesis
      using Cons.IH [of "step E ev s"] Cons.prems(3) Happen by simp
  next
    case Teardown
    have st: "settled_stay s (close_teardown s)" by (rule close_teardown_settled)
    have "fresh_above (close_teardown s)"
      using st close_teardown_request_id [of s] Cons.prems(1)
      by (simp add: fresh_above_def settled_stay_def)
    moreover have "futures (close_teardown s) f = Some v"
      using st Cons.prems by (simp add: settled_stay_def)
    ultimately show ?thesis
      using Cons.IH [of "close_teardown s"] Cons.prems(3) Teardown by simp
  qed
qed

lemma perform_fresh: "fresh_above s \<Longrightarrow> fresh_above (snd (perform E acts s))"
proof (induction acts arbitrary: s)
  case Nil
  then show ?case by simp
next
  case (Cons a acts)
  show ?case
  proof (cases a)
    case (Issue mth ps)
    obtain rid s1 where i: "issue mth ps s = (rid, s1)"
      by (cases "issue mth ps s")
    from issue_settled [OF Cons.prems i] have "fresh_above s1" by simp
    from Cons.IH [OF this] Issue i show ?thesis
      by (cases "perform E acts s1") simp
  next
    case (Happen ev)
    have "fresh_above (step E ev s)"
      using step_settled [of s E ev] step_frame [of s E ev] Cons.prems
      by (simp add: fresh_above_def settled_stay_def same_session_def)
    from Cons.IH [OF this] Happen show ?thesis by simp
  next
    case Teardown
    have "fresh_above (close_teardown s)"
      using close_teardown_settled [of s] close_teardown_request_id [of s] Cons.prems
      by (simp add: fresh_above_def settled_stay_def)
    from Cons.IH [OF this] Teardown show ?thesis by simp
  qed
qed

lemma perform_append:
  "snd (perform E (xs @ ys) s) = snd (perform E ys (snd (perform E xs s)))"
proof (induction xs arbitrary: s)
  case Nil
  show ?case by simp
next
  case (Cons a xs)
  show ?case
  proof (cases a)
    case (Issue mth ps)
    obtain rid s1 where i: "issue mth ps s = (rid, s1)"
      by (cases "issue mth ps s")
    show ?thesis
      using Issue i Cons.IH [of s1]
      by (cases "perform E xs s1"; cases "perform E (xs @ ys) s1") simp
  qed (simp_all add: Cons.IH)
qed

theorem settled_once:
  assumes "futures (snd (perform E before (new_client u nm ver evs))) f = Some v"
    and "v \<noteq> FPending"
  shows "futures (snd (perform E (before @ after) (new_client u nm ver evs))) f = Some v"
proof -
  have "fresh_above (new_client u nm ver evs)"
    by (simp add: fresh_above_def new_client_def)
  then have "fresh_above (snd (perform E before (new_client u nm ver evs)))"
    by (rule perform_fresh)
  from perform_settled [OF this assms] show ?thesis
    by (simp add: perform_append)
qed

text \<open>Once a response with correlation id \<open>n\<close> has been handled, whatever it did, a
  further response with that id is discarded with the warning.\<close>

lemma handled_id_gone:
  assumes "map_of msg ''id'' = Some (JInt n)" and "handle_message E (Some (JObj msg)) s = (r, s1)"
  shows "map_of (pending_requests s1) n = None"
proof -
  have c: "pending_requests (cancel_timer t x) = pending_requests x" for t x
    using cancel_timer_frame [of x t] by simp
  from assms map_of_in_keys [OF assms(1)] have "handle_response (JObj msg) s = (r, s1)"
    by (simp add: handle_message_def)
  with assms(1) show ?thesis
    by (auto simp: handle_response_def dict_get_def unknown_request_def Let_def c settle_def
        map_of_pop split: option.splits prod.splits if_splits sum.splits)
qed

theorem repeated_response_ignored:
  assumes "map_of msg ''id'' = Some (JInt n)" and "handle_message E (Some (JObj msg)) s = (r, s1)"
    and "map_of msg' ''id'' = Some (JInt n)"
  shows "handle_message E (Some (JObj msg')) s1
      = (None, s1\<lparr>diagnostics := diagnostics s1 @ [UnknownRequest (JInt n)]\<rparr>)"
  using unknown_response [OF assms(3) handled_id_gone [OF assms(1,2)]] .

text \<open>
  C1. The claim holds of what the code does with a well-formed result or error response
  and of every repeated or unknown response (\<open>settled_once\<close>,
  \<open>repeated_response_ignored\<close>, \<open>unknown_response\<close>), and fails where the code slips: an
  error response whose \<^verbatim>\<open>data\<close> member is \<^verbatim>\<open>null\<close>, which the declared type
  \<^verbatim>\<open>JSONRPCError.data: JSONRPCErrorData | None\<close> allows and \<^verbatim>\<open>from_response\<close>
  handles. \<^verbatim>\<open>_handle_response\<close> has removed the entry and cancelled the timer when
  \<^verbatim>\<open>from_dict\<close> raises \<^verbatim>\<open>AttributeError\<close> on \<^verbatim>\<open>data.get\<close>; the future is
  never settled: not by the timer, which is cancelled, not by \<^verbatim>\<open>close()\<close>, which no
  longer finds the entry, and the caller waits for ever.
\<close>

theorem null_error_data_orphans_call:
  "map_of (pending_requests calling_client) 3 = Some (3, 3)
   \<and> futures calling_client 3 = Some FPending
   \<and> fst (handle_message schema_env (Some (null_data_error 3)) calling_client) = Some AttributeError
   \<and> pending_requests (snd (handle_message schema_env (Some (null_data_error 3)) calling_client)) = []
   \<and> futures (snd (handle_message schema_env (Some (null_data_error 3)) calling_client)) 3
       = Some FPending
   \<and> timers (snd (handle_message schema_env (Some (null_data_error 3)) calling_client)) 3
       = Some (TimerCancelled, ''page/list'')
   \<and> futures (close_teardown (run schema_env [Text (Some (null_data_error 3)), TimerExpired 3]
                 calling_client)) 3 = Some FPending
   \<and> fst (request schema_env ''page/list'' (JObj [])
             [Text (Some (null_data_error 3)), TimerExpired 3, Text (Some (result_response 3 (JObj [])))]
             connected_client) = Waiting"
  by code_simp

end
